theory Spec2Isabelle
  imports Complex_Main "HOL-Library.AList" "HOL-Library.Multiset"
begin

section \<open>Values exchanged with the backend\<close>

text \<open>
  The dashboard of \<^verbatim>\<open>app.py\<close> holds no data of its own: everything it shows is a
  decoded JSON value. A Python \<^verbatim>\<open>dict\<close> is an association list in insertion order
  (its keys are distinct), a Python \<^verbatim>\<open>list\<close> a list. A float is the rational number
  it stands for.
\<close>

datatype json =
  JNull
  | JBool bool
  | JInt int
  | JFloat rat
  | JStr string
  | JList "json list"
  | JObj "(string \<times> json) list"

text \<open>
  The exceptions that the code can meet, all of them subclasses of Python's
  \<^verbatim>\<open>Exception\<close>. \<open>ConnectionError\<close> is \<^verbatim>\<open>requests.exceptions.ConnectionError\<close>
  (and its subclasses); \<open>OtherError\<close> is any other exception raised by a library. Each
  carries the text that \<^verbatim>\<open>str(e)\<close> gives, except \<open>KeyError\<close>, which carries the key.
\<close>

datatype exn =
  ConnectionError string
  | KeyError string
  | TypeError string
  | AttributeError string
  | OtherError string

fun exn_str :: "exn \<Rightarrow> string" where
  "exn_str (ConnectionError m) = m"
| "exn_str (KeyError k) = [CHR 39] @ k @ [CHR 39]"
| "exn_str (TypeError m) = m"
| "exn_str (AttributeError m) = m"
| "exn_str (OtherError m) = m"

fun type_name :: "json \<Rightarrow> string" where
  "type_name JNull = ''NoneType''"
| "type_name (JBool b) = ''bool''"
| "type_name (JInt i) = ''int''"
| "type_name (JFloat f) = ''float''"
| "type_name (JStr s) = ''str''"
| "type_name (JList xs) = ''list''"
| "type_name (JObj kvs) = ''dict''"

text \<open>\<^verbatim>\<open>x.get(key, default)\<close>: only a dict has the method.\<close>

fun py_get :: "json \<Rightarrow> string \<Rightarrow> json \<Rightarrow> exn + json" where
  "py_get (JObj kvs) k d = Inr (case map_of kvs k of None \<Rightarrow> d | Some v \<Rightarrow> v)"
| "py_get v k d =
     Inl (AttributeError ([CHR 39] @ type_name v @ [CHR 39] @ '' object has no attribute ''
            @ [CHR 39] @ ''get'' @ [CHR 39]))"

section \<open>The API gateway\<close>

text \<open>
  The four calls of the \<^verbatim>\<open>requests\<close> library that \<^verbatim>\<open>fetch_api\<close> makes, with their
  arguments: \<^verbatim>\<open>requests.get(url, params=data)\<close>, \<^verbatim>\<open>requests.post(url, json=data)\<close>,
  \<^verbatim>\<open>requests.put(url, json=data)\<close>, \<^verbatim>\<open>requests.delete(url)\<close>.
\<close>

datatype http_call =
  HttpGet string "json option"
  | HttpPost string "json option"
  | HttpPut string "json option"
  | HttpDelete string

text \<open>
  A response is its status code and what \<^verbatim>\<open>response.json()\<close> does on it: it returns
  the decoded body or raises. The network is what a call does: it raises or returns a
  response.
\<close>

record response =
  status_code :: int
  json_result :: "exn + json"

type_synonym network = "http_call \<Rightarrow> exn + response"

definition API_BASE_URL :: string where
  "API_BASE_URL = ''http://localhost:8000/api/v1''"

definition error_value :: "json \<Rightarrow> json" where
  "error_value m = JObj [(''error'', m)]"

definition empty_success :: json where
  "empty_success = JObj [(''success'', JBool True)]"

definition cannot_connect :: string where
  "cannot_connect = ''Cannot connect to backend API. Make sure the server is running.''"

text \<open>Lines 38 to 43: the status-code policy, inside the \<^verbatim>\<open>try\<close>.\<close>

definition on_response :: "response \<Rightarrow> exn + json" where
  "on_response r =
     (if status_code r = 200 \<or> status_code r = 201 then json_result r
      else if status_code r = 204 then Inr empty_success
      else (case json_result r of
              Inl e \<Rightarrow> Inl e
            | Inr body \<Rightarrow>
                (case py_get body ''detail'' (JStr ''API Error'') of
                   Inl e \<Rightarrow> Inl e
                 | Inr d \<Rightarrow> Inr (error_value d))))"

text \<open>Lines 27 to 43: the body of the \<^verbatim>\<open>try\<close>.\<close>

definition fetch_api_try :: "network \<Rightarrow> string \<Rightarrow> string \<Rightarrow> json option \<Rightarrow> exn + json" where
  "fetch_api_try net endpoint method data =
     (let url = API_BASE_URL @ endpoint in
      if method = ''GET'' then
        (case net (HttpGet url data) of Inl e \<Rightarrow> Inl e | Inr r \<Rightarrow> on_response r)
      else if method = ''POST'' then
        (case net (HttpPost url data) of Inl e \<Rightarrow> Inl e | Inr r \<Rightarrow> on_response r)
      else if method = ''PUT'' then
        (case net (HttpPut url data) of Inl e \<Rightarrow> Inl e | Inr r \<Rightarrow> on_response r)
      else if method = ''DELETE'' then
        (case net (HttpDelete url) of Inl e \<Rightarrow> Inl e | Inr r \<Rightarrow> on_response r)
      else Inr (error_value (JStr ''Invalid method'')))"

text \<open>
  Lines 44 to 47: the two \<^verbatim>\<open>except\<close> clauses, in the source's order. The result is
  \<open>Inl\<close> when an exception leaves the function.
\<close>

fun fetch_api_except :: "exn \<Rightarrow> exn + json" where
  "fetch_api_except (ConnectionError m) = Inr (error_value (JStr cannot_connect))"
| "fetch_api_except e = Inr (error_value (JStr (exn_str e)))"

definition fetch_api :: "network \<Rightarrow> string \<Rightarrow> string \<Rightarrow> json option \<Rightarrow> exn + json" where
  "fetch_api net endpoint method data =
     (case fetch_api_try net endpoint method data of
        Inl e \<Rightarrow> fetch_api_except e
      | Inr v \<Rightarrow> Inr v)"

text \<open>The call that a valid method makes.\<close>

definition request_of :: "string \<Rightarrow> string \<Rightarrow> json option \<Rightarrow> http_call option" where
  "request_of endpoint method data =
     (let url = API_BASE_URL @ endpoint in
      if method = ''GET'' then Some (HttpGet url data)
      else if method = ''POST'' then Some (HttpPost url data)
      else if method = ''PUT'' then Some (HttpPut url data)
      else if method = ''DELETE'' then Some (HttpDelete url)
      else None)"

section \<open>Python's operations on decoded values\<close>

text \<open>
  The handlers treat what the gateway returns as a dict or a list without checking it, so
  each operation is modelled on every value, with the exception Python raises where the
  value has the wrong type.
\<close>

definition quoted :: "string \<Rightarrow> string" where
  "quoted s = [CHR 39] @ s @ [CHR 39]"

fun contains :: "string \<Rightarrow> string \<Rightarrow> bool" where
  "contains k [] = (k = [])"
| "contains k (c # cs) = (take (length k) (c # cs) = k \<or> contains k cs)"

text \<open>\<^verbatim>\<open>key in x\<close> for a string \<open>key\<close>.\<close>

fun py_in :: "string \<Rightarrow> json \<Rightarrow> exn + bool" where
  "py_in k (JObj kvs) = Inr (k \<in> set (map fst kvs))"
| "py_in k (JList xs) = Inr (JStr k \<in> set xs)"
| "py_in k (JStr s) = Inr (contains k s)"
| "py_in k v = Inl (TypeError (''argument of type '' @ quoted (type_name v) @ '' is not iterable''))"

text \<open>\<^verbatim>\<open>x[key]\<close> for a string \<open>key\<close>.\<close>

fun py_getitem :: "json \<Rightarrow> string \<Rightarrow> exn + json" where
  "py_getitem (JObj kvs) k = (case map_of kvs k of None \<Rightarrow> Inl (KeyError k) | Some v \<Rightarrow> Inr v)"
| "py_getitem (JList xs) k = Inl (TypeError ''list indices must be integers or slices, not str'')"
| "py_getitem (JStr s) k = Inl (TypeError (''string indices must be integers, not '' @ quoted ''str''))"
| "py_getitem v k = Inl (TypeError (quoted (type_name v) @ '' object is not subscriptable''))"

text \<open>The truth value of \<open>x\<close> in \<^verbatim>\<open>if x\<close> and \<^verbatim>\<open>not x\<close>.\<close>

fun truthy :: "json \<Rightarrow> bool" where
  "truthy JNull = False"
| "truthy (JBool b) = b"
| "truthy (JInt i) = (i \<noteq> 0)"
| "truthy (JFloat f) = (f \<noteq> 0)"
| "truthy (JStr s) = (s \<noteq> [])"
| "truthy (JList xs) = (xs \<noteq> [])"
| "truthy (JObj kvs) = (kvs \<noteq> [])"

text \<open>\<^verbatim>\<open>for s in x\<close>: the elements of a list, the keys of a dict, the characters of a string.\<close>

fun py_iter :: "json \<Rightarrow> exn + json list" where
  "py_iter (JList xs) = Inr xs"
| "py_iter (JObj kvs) = Inr (map (\<lambda>kv. JStr (fst kv)) kvs)"
| "py_iter (JStr s) = Inr (map (\<lambda>c. JStr [c]) s)"
| "py_iter v = Inl (TypeError (quoted (type_name v) @ '' object is not iterable''))"


definition isinstance_list :: "json \<Rightarrow> bool" where
  "isinstance_list v = (case v of JList xs \<Rightarrow> True | _ \<Rightarrow> False)"

text \<open>
  The case of an ASCII character: \<^verbatim>\<open>a\<close> to \<^verbatim>\<open>z\<close> are 97 to 122, \<^verbatim>\<open>A\<close> to \<^verbatim>\<open>Z\<close> are
  65 to 90.
\<close>

definition is_ascii :: "string \<Rightarrow> bool" where
  "is_ascii s = (\<forall>c \<in> set s. (of_char c :: nat) < 128)"

definition upper_char :: "char \<Rightarrow> char" where
  "upper_char c =
     (if 97 \<le> (of_char c :: nat) \<and> (of_char c :: nat) \<le> 122
      then char_of ((of_char c :: nat) - 32) else c)"


text \<open>\<^verbatim>\<open>a or None\<close> for a string \<open>a\<close>.\<close>

definition or_None :: "string \<Rightarrow> json" where
  "or_None a = (if a \<noteq> [] then JStr a else JNull)"

text \<open>
  Key insertion into a dict, as a dict comprehension and \<^verbatim>\<open>d[k] = v\<close> do it: a key that
  is present keeps its place and takes the new value, a new key goes last.
\<close>

definition dict_set :: "(string \<times> 'v) list \<Rightarrow> string \<Rightarrow> 'v \<Rightarrow> (string \<times> 'v) list" where
  "dict_set d k v = AList.update k v d"

text \<open>A calendar date, as \<^verbatim>\<open>st.date_input\<close> returns it, and \<^verbatim>\<open>date.isoformat()\<close>.\<close>

record date =
  year :: nat
  month :: nat
  day :: nat

definition digit :: "nat \<Rightarrow> char" where
  "digit n = char_of (48 + n mod 10)"

definition isoformat :: "date \<Rightarrow> string" where
  "isoformat d =
     [digit (year d div 1000), digit (year d div 100), digit (year d div 10), digit (year d)]
     @ ''-'' @ [digit (month d div 10), digit (month d)]
     @ ''-'' @ [digit (day d div 10), digit (day d)]"

text \<open>
  A pandas frame: its column labels and its rows. A row keeps the cells it has; a cell that
  a row lacks is \<open>None\<close> here and \<^verbatim>\<open>NaN\<close> in pandas.
\<close>

record frame =
  columns :: "string list"
  rows :: "(string \<times> json) list list"

text \<open>
  The library functions that the handlers call and that are not modelled here, taken as
  parameters: \<^verbatim>\<open>str(x)\<close> as an f-string applies it, the float format \<^verbatim>\<open>{x:.Nf}\<close>,
  \<^verbatim>\<open>str.upper()\<close> and \<^verbatim>\<open>str.capitalize()\<close> on text that is not all ASCII (Unicode's
  case mapping), \<^verbatim>\<open>pd.to_datetime\<close> on a column, \<^verbatim>\<open>pd.DataFrame\<close> on a value that is not
  a list of dicts, and the reordering of the rows that \<^verbatim>\<open>df.sort_values('date')\<close> does.
  The type \<open>'d\<close> is that of parsed dates, in the order in which \<^verbatim>\<open>sort_values\<close> puts
  them (\<^verbatim>\<open>NaT\<close> last).
\<close>

record 'd lib =
  py_str :: "json \<Rightarrow> string"
  format_f :: "nat \<Rightarrow> json \<Rightarrow> exn + string"
  str_upper :: "string \<Rightarrow> string"
  str_capitalize :: "string \<Rightarrow> string"
  to_datetime :: "json option list \<Rightarrow> exn + 'd list"
  other_frame :: "json \<Rightarrow> exn + frame"
  sort_rows :: "('d \<times> (string \<times> json) list) list \<Rightarrow> ('d \<times> (string \<times> json) list) list"

text \<open>
  \<^verbatim>\<open>s.upper()\<close> and \<^verbatim>\<open>s.capitalize()\<close>. On ASCII text they are written out: each
  lowercase letter becomes its capital (\<^verbatim>\<open>capitalize\<close> lowers all but the first character).
  On any other text they are the library's.
\<close>

definition upper :: "'d lib \<Rightarrow> string \<Rightarrow> string" where
  "upper lib s = (if is_ascii s then map upper_char s else str_upper lib s)"


section \<open>A render of a screen\<close>

text \<open>
  What a render does that can be seen from outside: the calls that the gateway makes, and
  the Streamlit output, in the order of the script. Layout containers (tabs, columns, forms)
  are not recorded; an input widget is recorded by its label.
\<close>

datatype 'd trace =
  Candlestick "'d list" "json option list" "json option list" "json option list"
    "json option list" json
  | Scatter "'d list" "json option list" string
  | PxLine "'d list" "json option list"
  | PxBar "'d list" "json option list"

datatype 'd event =
  Call http_call
  | StHeader string
  | StSubheader string
  | StMarkdown string
  | StDivider
  | StError json
  | StInfo string
  | StWarning string
  | StSuccess string
  | StWrite string
  | StSpinner string
  | StExpander string
  | StWidget string
  | StMetric string json "string option"
  | StDataframe frame
  | StDatedFrame "string list" "('d \<times> (string \<times> json) list) list"
  | StPlotlyChart "'d trace list" string

text \<open>
  The backend may answer each call of a render differently: \<open>backend w n\<close> is the network
  at the call number \<open>n\<close>. A script ends with a value, with an exception that nothing
  catches, or with Streamlit's rerun request.
\<close>

record 'd world =
  backend :: "nat \<Rightarrow> network"
  ncalls :: nat
  events :: "'d event list"

datatype stop = Raised exn | Rerun

type_synonym ('d, 'a) script = "'d world \<Rightarrow> (stop + 'a) \<times> 'd world"

definition ret :: "'a \<Rightarrow> ('d, 'a) script" where
  "ret x = (\<lambda>w. (Inr x, w))"

definition bind :: "('d, 'a) script \<Rightarrow> ('a \<Rightarrow> ('d, 'b) script) \<Rightarrow> ('d, 'b) script" where
  "bind m f = (\<lambda>w. case m w of (Inl e, w') \<Rightarrow> (Inl e, w') | (Inr x, w') \<Rightarrow> f x w')"

definition lift :: "exn + 'a \<Rightarrow> ('d, 'a) script" where
  "lift r = (\<lambda>w. (case r of Inl e \<Rightarrow> Inl (Raised e) | Inr x \<Rightarrow> Inr x, w))"

definition emit :: "'d event \<Rightarrow> ('d, unit) script" where
  "emit ev = (\<lambda>w. (Inr (), w\<lparr>events := events w @ [ev]\<rparr>))"

definition st_rerun :: "('d, unit) script" where
  "st_rerun = (\<lambda>w. (Inl Rerun, w))"

text \<open>Statements one after the other, up to the first that stops the script.\<close>

fun block :: "('d, unit) script list \<Rightarrow> ('d, unit) script" where
  "block [] = ret ()"
| "block (m # ms) = bind m (\<lambda>_. block ms)"

fun for_each :: "('a \<Rightarrow> ('d, unit) script) \<Rightarrow> 'a list \<Rightarrow> ('d, unit) script" where
  "for_each f [] = ret ()"
| "for_each f (x # xs) = bind (f x) (\<lambda>_. for_each f xs)"

text \<open>
  A call of \<open>fetch_api\<close> inside a render: the request it makes, when the method is valid,
  is recorded and counted.
\<close>

definition gateway :: "string \<Rightarrow> string \<Rightarrow> json option \<Rightarrow> ('d, json) script" where
  "gateway endpoint method data =
     (\<lambda>w. let r = (case fetch_api (backend w (ncalls w)) endpoint method data of
                     Inl e \<Rightarrow> Inl (Raised e) | Inr v \<Rightarrow> Inr v)
          in case request_of endpoint method data of
               None \<Rightarrow> (r, w)
             | Some c \<Rightarrow> (r, w\<lparr>ncalls := Suc (ncalls w), events := events w @ [Call c]\<rparr>))"

text \<open>\<^verbatim>\<open>st.selectbox\<close>: the option that the user picked, the first one by default.\<close>

definition selectbox :: "'a list \<Rightarrow> nat \<Rightarrow> 'a option" where
  "selectbox options i =
     (if options = [] then None
      else Some (options ! (if i < length options then i else 0)))"

text \<open>
  The output of a render from a fresh start, and what a script adds to the output of the
  world it starts in.
\<close>

definition fresh :: "(nat \<Rightarrow> network) \<Rightarrow> 'd world" where
  "fresh b = \<lparr>backend = b, ncalls = 0, events = []\<rparr>"

definition rendered :: "('d, 'a) script \<Rightarrow> 'd world \<Rightarrow> 'd event list" where
  "rendered m w = drop (length (events w)) (events (snd (m w)))"

fun calls_of :: "'d event list \<Rightarrow> http_call list" where
  "calls_of [] = []"
| "calls_of (Call c # es) = c # calls_of es"
| "calls_of (e # es) = calls_of es"

text \<open>The f-string \<^verbatim>\<open>f"{s['symbol']} - {s['name']}"\<close>, the label of a stock.\<close>

definition stock_label :: "'d lib \<Rightarrow> json \<Rightarrow> exn + string" where
  "stock_label lib s =
     (case py_getitem s ''symbol'' of
        Inl e \<Rightarrow> Inl e
      | Inr symb \<Rightarrow>
          (case py_getitem s ''name'' of
             Inl e \<Rightarrow> Inl e
           | Inr name \<Rightarrow> Inr (py_str lib symb @ '' - '' @ py_str lib name)))"

text \<open>
  The dict comprehension \<^verbatim>\<open>{f"{s['symbol']} - {s['name']}": value(s) for s in stocks}\<close>
  over the elements of \<open>stocks\<close>.
\<close>

fun stock_options :: "'d lib \<Rightarrow> (json \<Rightarrow> exn + 'v) \<Rightarrow> (string \<times> 'v) list \<Rightarrow> json list
                        \<Rightarrow> exn + (string \<times> 'v) list" where
  "stock_options lib val acc [] = Inr acc"
| "stock_options lib val acc (s # ss) =
     (case stock_label lib s of
        Inl e \<Rightarrow> Inl e
      | Inr k \<Rightarrow>
          (case val s of
             Inl e \<Rightarrow> Inl e
           | Inr v \<Rightarrow> stock_options lib val (dict_set acc k v) ss))"

text \<open>\<^verbatim>\<open>stock_options[selected]\<close>, where \<open>selected\<close> is what the selectbox returned.\<close>

definition lookup_selected :: "(string \<times> 'v) list \<Rightarrow> string option \<Rightarrow> exn + 'v" where
  "lookup_selected opts selected =
     (case selected of
        None \<Rightarrow> Inl (KeyError ''None'')
      | Some k \<Rightarrow> (case map_of opts k of None \<Rightarrow> Inl (KeyError k) | Some v \<Rightarrow> Inr v))"

text \<open>
  The branch that every handler takes on the result of a call: \<^verbatim>\<open>if "error" in result:
  st.error(result["error"])\<close>, else the continuation.
\<close>

definition show_error :: "json \<Rightarrow> ('d, unit) script" where
  "show_error result = bind (lift (py_getitem result ''error'')) (\<lambda>m. emit (StError m))"

section \<open>The Stock Management screen\<close>

text \<open>What the widgets of the screen return in one render.\<close>

record sm_inputs =
  sm_symbol :: string
  sm_fetch_add :: bool
  sm_m_symbol :: string
  sm_m_name :: string
  sm_m_sector :: string
  sm_m_industry :: string
  sm_m_exchange :: string
  sm_add_stock :: bool
  sm_delete :: "string \<Rightarrow> bool"
  sm_selected :: nat
  sm_period :: nat
  sm_use_dates :: bool
  sm_start_date :: date
  sm_end_date :: date
  sm_fetch_prices :: bool

text \<open>Lines 137 to 140 and 164 to 167: the report of a created stock.\<close>

definition added :: "'d lib \<Rightarrow> json \<Rightarrow> ('d, unit) script" where
  "added lib result =
     bind (lift (py_in ''error'' result)) (\<lambda>err.
       if err then show_error result
       else bind (lift (stock_label lib result)) (\<lambda>l. emit (StSuccess (''Added '' @ l))))"

text \<open>Lines 129 to 142: quick add.\<close>

definition quick_add :: "'d lib \<Rightarrow> sm_inputs \<Rightarrow> ('d, unit) script" where
  "quick_add lib inp =
     block
       [emit (StMarkdown ''### Quick Add (Fetch from Yahoo Finance)''),
        emit (StWidget ''Stock Symbol''),
        emit (StWidget ''Fetch & Add Stock''),
        if sm_fetch_add inp then
          (if sm_symbol inp \<noteq> [] then
             block
               [emit (StSpinner (''Fetching '' @ upper lib (sm_symbol inp) @ ''...'')),
                bind (gateway (''/stocks/fetch/'' @ upper lib (sm_symbol inp)) ''POST'' None)
                  (added lib)]
           else emit (StWarning ''Please enter a stock symbol''))
        else ret ()]"

text \<open>Lines 155 to 161: the body of the manual-add request.\<close>

definition manual_add_data :: "'d lib \<Rightarrow> sm_inputs \<Rightarrow> json" where
  "manual_add_data lib inp =
     JObj [(''symbol'', JStr (upper lib (sm_m_symbol inp))),
           (''name'', JStr (sm_m_name inp)),
           (''sector'', or_None (sm_m_sector inp)),
           (''industry'', or_None (sm_m_industry inp)),
           (''exchange'', or_None (sm_m_exchange inp))]"

text \<open>Lines 145 to 169: manual add.\<close>

definition manual_add :: "'d lib \<Rightarrow> sm_inputs \<Rightarrow> ('d, unit) script" where
  "manual_add lib inp =
     block
       [emit (StMarkdown ''### Manual Add''),
        emit (StWidget ''Symbol''),
        emit (StWidget ''Company Name''),
        emit (StWidget ''Sector (optional)''),
        emit (StWidget ''Industry (optional)''),
        emit (StWidget ''Exchange (optional)''),
        emit (StWidget ''Add Stock''),
        if sm_add_stock inp then
          (if sm_m_symbol inp \<noteq> [] \<and> sm_m_name inp \<noteq> [] then
             bind (gateway ''/stocks/'' ''POST'' (Some (manual_add_data lib inp))) (added lib)
           else emit (StWarning ''Symbol and Name are required''))
        else ret ()]"

text \<open>Lines 182 to 198: one stock of the list, with its delete button.\<close>

definition stock_card :: "'d lib \<Rightarrow> sm_inputs \<Rightarrow> json \<Rightarrow> ('d, unit) script" where
  "stock_card lib inp stock =
     bind (lift (stock_label lib stock)) (\<lambda>l.
       block
         [emit (StExpander l),
          bind (lift (py_get stock ''sector'' (JStr ''N/A''))) (\<lambda>v.
            emit (StWrite (''**Sector:** '' @ py_str lib v))),
          bind (lift (py_get stock ''industry'' (JStr ''N/A''))) (\<lambda>v.
            emit (StWrite (''**Industry:** '' @ py_str lib v))),
          bind (lift (py_get stock ''exchange'' (JStr ''N/A''))) (\<lambda>v.
            emit (StWrite (''**Exchange:** '' @ py_str lib v))),
          bind (lift (py_get stock ''is_active'' JNull)) (\<lambda>v.
            emit (StWrite (''**Active:** '' @ (if truthy v then ''Yes'' else ''No'')))),
          bind (lift (py_getitem stock ''id'')) (\<lambda>i.
            block
              [emit (StWidget ''Delete''),
               if sm_delete inp (''delete_'' @ py_str lib i) then
                 bind (gateway (''/stocks/'' @ py_str lib i) ''DELETE'' None) (\<lambda>result.
                   bind (lift (py_in ''error'' result)) (\<lambda>err.
                     if \<not> err then block [emit (StSuccess ''Deleted!''), st_rerun]
                     else ret ()))
               else ret ()])])"

text \<open>Lines 172 to 198: the list of stocks.\<close>

definition view_stocks :: "'d lib \<Rightarrow> sm_inputs \<Rightarrow> ('d, unit) script" where
  "view_stocks lib inp =
     block
       [emit (StSubheader ''Your Stocks''),
        bind (gateway ''/stocks/'' ''GET'' None) (\<lambda>stocks.
          bind (lift (py_in ''error'' stocks)) (\<lambda>err.
            if err then show_error stocks
            else if \<not> truthy stocks then emit (StInfo ''No stocks found. Add some stocks first!'')
            else bind (lift (py_iter stocks)) (for_each (stock_card lib inp))))]"

definition PERIODS :: "string list" where
  "PERIODS = [''1mo'', ''3mo'', ''6mo'', ''1y'', ''2y'', ''5y'', ''max'']"

text \<open>Lines 238 to 241: the body of the ingestion request.\<close>

definition fetch_prices_data :: "sm_inputs \<Rightarrow> json \<Rightarrow> json" where
  "fetch_prices_data inp symbol =
     (let period = (case selectbox PERIODS (sm_period inp) of None \<Rightarrow> JNull | Some p \<Rightarrow> JStr p);
          data = [(''symbol'', symbol), (''period'', period)]
      in if sm_use_dates inp then
           JObj (dict_set (dict_set data ''start_date'' (JStr (isoformat (sm_start_date inp))))
                   ''end_date'' (JStr (isoformat (sm_end_date inp))))
         else JObj data)"

text \<open>Lines 211 to 249: the form of the Fetch Prices tab, once the stocks are there.\<close>

definition fetch_prices_form :: "'d lib \<Rightarrow> sm_inputs \<Rightarrow> (string \<times> json) list \<Rightarrow> ('d, unit) script" where
  "fetch_prices_form lib inp opts =
     block
       [emit (StWidget ''Select Stock''),
        emit (StWidget ''Period''),
        emit (StWidget ''Use custom date range''),
        if sm_use_dates inp
        then block [emit (StWidget ''Start Date''), emit (StWidget ''End Date'')]
        else ret (),
        emit (StWidget ''Fetch Prices''),
        if sm_fetch_prices inp then
          bind (lift (lookup_selected opts (selectbox (map fst opts) (sm_selected inp)))) (\<lambda>symbol.
            block
              [emit (StSpinner (''Fetching prices for '' @ py_str lib symbol @ ''...'')),
               bind (gateway ''/prices/fetch'' ''POST'' (Some (fetch_prices_data inp symbol)))
                 (\<lambda>result.
                   bind (lift (py_in ''error'' result)) (\<lambda>err.
                     if err then show_error result
                     else
                       bind (lift (py_getitem result ''total_fetched'')) (\<lambda>t.
                         bind (lift (py_getitem result ''new_records'')) (\<lambda>n.
                           emit (StSuccess (''Fetched '' @ py_str lib t @ '' prices, ''
                                   @ py_str lib n @ '' new records added.''))))))])
        else ret ()]"

text \<open>Lines 201 to 249: the Fetch Prices tab.\<close>

definition fetch_prices_tab :: "'d lib \<Rightarrow> sm_inputs \<Rightarrow> ('d, unit) script" where
  "fetch_prices_tab lib inp =
     block
       [emit (StSubheader ''Fetch Historical Prices''),
        bind (gateway ''/stocks/'' ''GET'' None) (\<lambda>stocks.
          bind (lift (py_in ''error'' stocks)) (\<lambda>err.
            if err then show_error stocks
            else if \<not> truthy stocks then emit (StInfo ''No stocks found. Add some stocks first!'')
            else
              bind (lift (case py_iter stocks of
                            Inl e \<Rightarrow> Inl e
                          | Inr ss \<Rightarrow> stock_options lib (\<lambda>s. py_getitem s ''symbol'') [] ss))
                (fetch_prices_form lib inp)))]"

definition show_stock_management :: "'d lib \<Rightarrow> sm_inputs \<Rightarrow> ('d, unit) script" where
  "show_stock_management lib inp =
     block
       [emit (StHeader ''Stock Management''),
        emit (StSubheader ''Add New Stock''),
        quick_add lib inp,
        manual_add lib inp,
        view_stocks lib inp,
        fetch_prices_tab lib inp]"

text \<open>Concrete backends, for the examples below.\<close>

definition html_500_network :: network where
  "html_500_network c =
     Inr \<lparr>status_code = 500,
          json_result = Inl (OtherError ''Expecting value: line 1 column 1 (char 0)'')\<rparr>"

definition down_network :: network where
  "down_network c = Inl (ConnectionError ''Connection refused'')"

definition timeout_network :: network where
  "timeout_network c = Inl (OtherError ''Read timed out.'')"

definition detail_404_network :: network where
  "detail_404_network c =
     Inr \<lparr>status_code = 404,
          json_result = Inr (JObj [(''detail'', JStr ''Stock not found'')])\<rparr>"

section \<open>Concrete inputs\<close>

text \<open>
  An instance of the library parameters, for the examples: decimal text for an integer,
  an ISO date read as the number its digits spell, so that \<^verbatim>\<open>2024-01-31\<close> is 20240131,
  a sort that leaves rows of equal date in the order they came in, and for text that is
  not all ASCII the capitals of the characters below 256 as \<^verbatim>\<open>str.upper()\<close> gives them
  (\<^verbatim>\<open>U+00E0\<close> to \<^verbatim>\<open>U+00FE\<close> but the division sign are 32 above their capitals, the sharp
  s becomes \<^verbatim>\<open>SS\<close>); the micro sign and \<^verbatim>\<open>U+00FF\<close>, whose capitals lie above 255, are
  in no example.
\<close>

function dec :: "nat \<Rightarrow> string" where
  "dec n = (if n < 10 then [digit n] else dec (n div 10) @ [digit n])"
  by pat_completeness auto
termination
  by (relation "measure id") auto

fun demo_str :: "json \<Rightarrow> string" where
  "demo_str (JStr s) = s"
| "demo_str (JInt i) = (if i < 0 then ''-'' @ dec (nat (- i)) else dec (nat i))"
| "demo_str JNull = ''None''"
| "demo_str (JBool b) = (if b then ''True'' else ''False'')"
| "demo_str v = ''?''"

definition is_digit :: "char \<Rightarrow> bool" where
  "is_digit c = (48 \<le> (of_char c :: nat) \<and> (of_char c :: nat) \<le> 57)"

definition iso_key :: "string \<Rightarrow> int" where
  "iso_key s = foldl (\<lambda>a c. 10 * a + (int (of_char c) - 48)) 0 (filter is_digit s)"

fun demo_to_datetime :: "json option list \<Rightarrow> exn + int list" where
  "demo_to_datetime [] = Inr []"
| "demo_to_datetime (Some (JStr s) # vs) =
     (case demo_to_datetime vs of Inl e \<Rightarrow> Inl e | Inr ds \<Rightarrow> Inr (iso_key s # ds))"
| "demo_to_datetime (v # vs) = Inl (OtherError ''Unknown datetime string format'')"

definition latin1_upper :: "string \<Rightarrow> string" where
  "latin1_upper s =
     concat (map (\<lambda>c.
       if (of_char c :: nat) = 223 then ''SS''
       else if (97 \<le> (of_char c :: nat) \<and> (of_char c :: nat) \<le> 122)
               \<or> (224 \<le> (of_char c :: nat) \<and> (of_char c :: nat) \<le> 254
                    \<and> (of_char c :: nat) \<noteq> 247)
            then [char_of ((of_char c :: nat) - 32)]
            else [c]) s)"

definition demo_lib :: "int lib" where
  "demo_lib =
     \<lparr>py_str = demo_str,
      format_f = (\<lambda>n v. Inr (demo_str v)),
      str_upper = latin1_upper,
      str_capitalize = map upper_char,
      to_datetime = demo_to_datetime,
      other_frame = (\<lambda>v. Inl (OtherError ''DataFrame constructor not properly called!'')),
      sort_rows = sort_key fst\<rparr>"

text \<open>Inputs of the Stock Management screen with nothing typed and nothing pressed.\<close>

definition sm_idle :: sm_inputs where
  "sm_idle =
     \<lparr>sm_symbol = [], sm_fetch_add = False,
      sm_m_symbol = [], sm_m_name = [], sm_m_sector = [], sm_m_industry = [],
      sm_m_exchange = [], sm_add_stock = False,
      sm_delete = (\<lambda>k. False),
      sm_selected = 0, sm_period = 0, sm_use_dates = False,
      sm_start_date = \<lparr>year = 2024, month = 1, day = 1\<rparr>,
      sm_end_date = \<lparr>year = 2024, month = 1, day = 31\<rparr>,
      sm_fetch_prices = False\<rparr>"

definition quick_aapl :: sm_inputs where
  "quick_aapl = sm_idle\<lparr>sm_symbol := ''aapl'', sm_fetch_add := True\<rparr>"

definition quick_blank :: sm_inputs where
  "quick_blank = sm_idle\<lparr>sm_fetch_add := True\<rparr>"

text \<open>The symbol \<^verbatim>\<open>caf\<close> followed by \<^verbatim>\<open>U+00E9\<close>, the e with an acute accent.\<close>

definition quick_cafe :: sm_inputs where
  "quick_cafe = sm_idle\<lparr>sm_symbol := ''caf'' @ [char_of (233 :: nat)], sm_fetch_add := True\<rparr>"

definition manual_cafe :: sm_inputs where
  "manual_cafe =
     sm_idle\<lparr>sm_m_symbol := ''caf'' @ [char_of (233 :: nat)], sm_m_name := ''Cafe SA'',
             sm_add_stock := True\<rparr>"

definition manual_acme :: sm_inputs where
  "manual_acme =
     sm_idle\<lparr>sm_m_symbol := ''acme'', sm_m_name := ''Acme Corp'', sm_m_exchange := ''NYSE'',
             sm_add_stock := True\<rparr>"

definition custom_range :: sm_inputs where
  "custom_range = sm_idle\<lparr>sm_period := 3, sm_use_dates := True, sm_fetch_prices := True\<rparr>"

definition apple :: json where
  "apple = JObj [(''id'', JInt 7), (''symbol'', JStr ''AAPL''), (''name'', JStr ''Apple Inc.'')]"

definition ok :: "json \<Rightarrow> exn + response" where
  "ok body = Inr \<lparr>status_code = 200, json_result = Inr body\<rparr>"

text \<open>A backend with one stock, which answers an ingestion request with its counts.\<close>

fun one_stock_network :: network where
  "one_stock_network (HttpGet url params) = ok (JList [apple])"
| "one_stock_network (HttpPost url body) =
     ok (JObj [(''total_fetched'', JInt 21), (''new_records'', JInt 21)])"
| "one_stock_network c = Inr \<lparr>status_code = 204, json_result = Inl (OtherError '''')\<rparr>"

definition one_stock_backend :: "nat \<Rightarrow> network" where
  "one_stock_backend n = one_stock_network"

section \<open>The chart data pipeline\<close>

text \<open>
  \<^verbatim>\<open>pd.DataFrame(v)\<close>. For a list of dicts the rows are the dicts and the columns are their
  keys, in the order of their first appearance.
\<close>

definition first_seen :: "string list \<Rightarrow> string list" where
  "first_seen ks = foldl (\<lambda>acc k. if k \<in> set acc then acc else acc @ [k]) [] ks"

fun dict_rows :: "json list \<Rightarrow> (string \<times> json) list list option" where
  "dict_rows [] = Some []"
| "dict_rows (JObj kvs # vs) = map_option ((#) kvs) (dict_rows vs)"
| "dict_rows (v # vs) = None"

definition DataFrame :: "'d lib \<Rightarrow> json \<Rightarrow> exn + frame" where
  "DataFrame lib v =
     (case v of
        JList xs \<Rightarrow>
          (case dict_rows xs of
             Some rs \<Rightarrow> Inr \<lparr>columns = first_seen (concat (map (map fst) rs)), rows = rs\<rparr>
           | None \<Rightarrow> other_frame lib v)
      | _ \<Rightarrow> other_frame lib v)"

text \<open>\<^verbatim>\<open>df[c]\<close>: the cells of a column, or \<^verbatim>\<open>KeyError\<close>.\<close>

definition column :: "frame \<Rightarrow> string \<Rightarrow> exn + json option list" where
  "column df c =
     (if c \<in> set (columns df) then Inr (map (\<lambda>r. map_of r c) (rows df)) else Inl (KeyError c))"

text \<open>
  A frame whose \<^verbatim>\<open>date\<close> column has been replaced by parsed dates: each row goes with
  its date.
\<close>

record 'd dated =
  dcolumns :: "string list"
  drows :: "('d \<times> (string \<times> json) list) list"

text \<open>
  \<^verbatim>\<open>df['date'] = pd.to_datetime(df['date'])\<close>. The assignment needs as many dates as the
  frame has rows.
\<close>

definition set_dates :: "frame \<Rightarrow> 'd list \<Rightarrow> exn + 'd dated" where
  "set_dates df ds =
     (if length ds = length (rows df)
      then Inr \<lparr>dcolumns = columns df, drows = zip ds (rows df)\<rparr>
      else Inl (OtherError ''Length of values does not match length of index''))"

definition dated_frame :: "'d lib \<Rightarrow> json \<Rightarrow> exn + 'd dated" where
  "dated_frame lib v =
     (case DataFrame lib v of
        Inl e \<Rightarrow> Inl e
      | Inr df \<Rightarrow>
          (case column df ''date'' of
             Inl e \<Rightarrow> Inl e
           | Inr cells \<Rightarrow>
               (case to_datetime lib cells of
                  Inl e \<Rightarrow> Inl e
                | Inr ds \<Rightarrow> set_dates df ds)))"

text \<open>
  \<^verbatim>\<open>df.sort_values('date')\<close>. Pandas sorts with quicksort unless told otherwise, and
  quicksort is not stable: which of two rows of equal date comes first is the library's
  choice. So the reordering is the library's \<open>sort_rows\<close>, and \<open>sorts_by_date\<close> is what
  pandas promises of it: the same rows, in non-decreasing order of their dates.
\<close>

definition sort_values :: "'d lib \<Rightarrow> 'd dated \<Rightarrow> 'd dated" where
  "sort_values lib df = df\<lparr>drows := sort_rows lib (drows df)\<rparr>"


text \<open>
  Lines 301 to 303 of \<^verbatim>\<open>show_price_history\<close> and lines 424 to 426 of
  \<^verbatim>\<open>show_projections\<close>: frame, parsed dates, sort.
\<close>

definition sorted_frame :: "'d lib \<Rightarrow> json \<Rightarrow> exn + 'd dated" where
  "sorted_frame lib v =
     (case dated_frame lib v of Inl e \<Rightarrow> Inl e | Inr df \<Rightarrow> Inr (sort_values lib df))"

definition dates :: "'d dated \<Rightarrow> 'd list" where
  "dates df = map fst (drows df)"

text \<open>\<^verbatim>\<open>df[c]\<close> on a dated frame, for a column \<open>c\<close> other than \<^verbatim>\<open>date\<close>.\<close>

definition dcolumn :: "'d dated \<Rightarrow> string \<Rightarrow> exn + json option list" where
  "dcolumn df c =
     (if c \<in> set (dcolumns df) then Inr (map (\<lambda>r. map_of (snd r) c) (drows df))
      else Inl (KeyError c))"

text \<open>The column that \<^verbatim>\<open>px.line\<close> and \<^verbatim>\<open>px.bar\<close> plot: a missing one is a \<^verbatim>\<open>ValueError\<close>.\<close>

definition px_column :: "'d dated \<Rightarrow> string \<Rightarrow> exn + json option list" where
  "px_column df c =
     (if c \<in> set (dcolumns df) then Inr (map (\<lambda>r. map_of (snd r) c) (drows df))
      else Inl (OtherError (''Value of '' @ quoted ''y'' @ '' is not the name of a column'')))"

section \<open>The Price History screen\<close>

record ph_inputs =
  ph_selected :: nat
  ph_start_date :: date
  ph_end_date :: date
  ph_limit :: int
  ph_chart_type :: nat

text \<open>Lines 284 to 288: the parameters of the price request.\<close>

definition price_params :: "ph_inputs \<Rightarrow> json" where
  "price_params inp =
     JObj [(''start_date'', JStr (isoformat (ph_start_date inp))),
           (''end_date'', JStr (isoformat (ph_end_date inp))),
           (''limit'', JInt (ph_limit inp))]"

text \<open>Lines 311 to 320: the four metrics of the statistics.\<close>

definition price_metric :: "'d lib \<Rightarrow> json \<Rightarrow> string \<Rightarrow> string \<Rightarrow> ('d, unit) script" where
  "price_metric lib stats label key =
     bind (lift (py_get stats key (JInt 0))) (\<lambda>v.
       bind (lift (format_f lib 2 v)) (\<lambda>s. emit (StMetric label (JStr (''$'' @ s)) None)))"

definition stats_metrics :: "'d lib \<Rightarrow> json \<Rightarrow> ('d, unit) script" where
  "stats_metrics lib stats =
     block
       [price_metric lib stats ''Min Price'' ''min_price'',
        price_metric lib stats ''Max Price'' ''max_price'',
        price_metric lib stats ''Avg Price'' ''avg_price'',
        bind (lift (py_get stats ''total_records'' (JInt 0))) (\<lambda>v.
          emit (StMetric ''Total Records'' v None))]"

text \<open>Lines 327 to 337: the figure of the price chart.\<close>

definition price_figure :: "'d lib \<Rightarrow> ph_inputs \<Rightarrow> json \<Rightarrow> 'd dated \<Rightarrow> ('d, unit) script" where
  "price_figure lib inp stock df =
     (if selectbox [''Candlestick'', ''Line''] (ph_chart_type inp) = Some ''Candlestick'' then
        bind (lift (dcolumn df ''open_price'')) (\<lambda>op.
          bind (lift (dcolumn df ''high_price'')) (\<lambda>hi.
            bind (lift (dcolumn df ''low_price'')) (\<lambda>lo.
              bind (lift (dcolumn df ''close_price'')) (\<lambda>cl.
                bind (lift (py_getitem stock ''symbol'')) (\<lambda>name.
                  emit (StPlotlyChart [Candlestick (dates df) op hi lo cl name] []))))))
      else
        bind (lift (py_getitem stock ''symbol'')) (\<lambda>name.
          bind (lift (px_column df ''close_price'')) (\<lambda>cl.
            emit (StPlotlyChart [PxLine (dates df) cl] (py_str lib name @ '' Closing Price'')))))"

text \<open>Lines 305 to 356: what follows the sorted frame.\<close>

definition price_charts :: "'d lib \<Rightarrow> ph_inputs \<Rightarrow> json \<Rightarrow> 'd dated \<Rightarrow> ('d, unit) script" where
  "price_charts lib inp stock df =
     block
       [emit (StSubheader ''Statistics''),
        bind (lift (py_getitem stock ''id'')) (\<lambda>i.
          bind (gateway (''/prices/'' @ py_str lib i @ ''/stats'') ''GET'' None) (\<lambda>stats.
            bind (lift (py_in ''error'' stats)) (\<lambda>err.
              if \<not> err then stats_metrics lib stats else ret ()))),
        emit (StSubheader ''Price Chart''),
        emit (StWidget ''Chart Type''),
        price_figure lib inp stock df,
        emit (StSubheader ''Trading Volume''),
        bind (lift (px_column df ''volume'')) (\<lambda>vol.
          emit (StPlotlyChart [PxBar (dates df) vol] [])),
        emit (StExpander ''View Raw Data''),
        emit (StDatedFrame (dcolumns df) (drows df))]"

text \<open>Lines 266 to 303: the selected stock and its prices.\<close>

definition price_history_of :: "'d lib \<Rightarrow> ph_inputs \<Rightarrow> (string \<times> json) list
                                  \<Rightarrow> ('d, unit) script" where
  "price_history_of lib inp opts =
     block
       [emit (StWidget ''Select Stock''),
        bind (lift (lookup_selected opts (selectbox (map fst opts) (ph_selected inp)))) (\<lambda>stock.
          block
            [emit (StWidget ''Start Date''),
             emit (StWidget ''End Date''),
             emit (StWidget ''Max Records''),
             bind (lift (py_getitem stock ''id'')) (\<lambda>i.
               bind (gateway (''/prices/'' @ py_str lib i) ''GET'' (Some (price_params inp)))
                 (\<lambda>prices.
                   bind (lift (py_in ''error'' prices)) (\<lambda>err.
                     if err then show_error prices
                     else if \<not> truthy prices then
                       emit (StWarning
                         ''No price data found. Fetch historical prices from Stock Management.'')
                     else
                       bind (lift (sorted_frame lib prices)) (price_charts lib inp stock))))])]"


section \<open>The Dashboard screen\<close>










section \<open>The Projections screen\<close>

record pj_inputs =
  pj_selected :: nat
  pj_days_ahead :: int
  pj_lookback :: int
  pj_proj_btn :: bool
  pj_window :: int
  pj_ma_btn :: bool
  pj_vol_lookback :: int
  pj_vol_btn :: bool









text \<open>Lines 464 to 492: the chart of the moving average.\<close>

definition ma_chart :: "'d lib \<Rightarrow> pj_inputs \<Rightarrow> json \<Rightarrow> json \<Rightarrow> ('d, unit) script" where
  "ma_chart lib inp stock ma_data =
     bind (lift (dated_frame lib ma_data)) (\<lambda>df.
       bind (lift (dcolumn df ''close_price'')) (\<lambda>cl.
         bind (lift (dcolumn df ''moving_average'')) (\<lambda>ma.
           bind (lift (py_getitem stock ''symbol'')) (\<lambda>name.
             emit (StPlotlyChart
                     [Scatter (dates df) cl ''Close Price'',
                      Scatter (dates df) ma (py_str lib (JInt (pj_window inp)) @ ''-day MA'')]
                     (py_str lib name @ '' Moving Average''))))))"

text \<open>Lines 461 to 494: what the tab does with the result of the moving-average request.\<close>

definition ma_result :: "'d lib \<Rightarrow> pj_inputs \<Rightarrow> json \<Rightarrow> json \<Rightarrow> ('d, unit) script" where
  "ma_result lib inp stock ma_data =
     bind (lift (py_in ''error'' ma_data)) (\<lambda>err.
       if err then show_error ma_data
       else if isinstance_list ma_data \<and> truthy ma_data then ma_chart lib inp stock ma_data
       else emit (StWarning ''No data available for moving average calculation''))"

text \<open>Lines 454 to 494: the Moving Average tab.\<close>

definition moving_average_tab :: "'d lib \<Rightarrow> pj_inputs \<Rightarrow> json \<Rightarrow> ('d, unit) script" where
  "moving_average_tab lib inp stock =
     block
       [emit (StSubheader ''Moving Average Analysis''),
        emit (StWidget ''Moving Average Window (days)''),
        emit (StWidget ''Calculate Moving Average''),
        if pj_ma_btn inp then
          bind (lift (py_getitem stock ''id'')) (\<lambda>i.
            bind (gateway (''/prices/'' @ py_str lib i @ ''/moving-average'') ''GET''
                    (Some (JObj [(''window'', JInt (pj_window inp))])))
              (ma_result lib inp stock))
        else ret ()]"



text \<open>Inputs of the Price History screen, and a backend with two price rows out of order.\<close>

definition ph_idle :: ph_inputs where
  "ph_idle =
     \<lparr>ph_selected = 0,
      ph_start_date = \<lparr>year = 2024, month = 1, day = 1\<rparr>,
      ph_end_date = \<lparr>year = 2024, month = 1, day = 31\<rparr>,
      ph_limit = 200,
      ph_chart_type = 1\<rparr>"

definition price_rows :: json where
  "price_rows =
     JList [JObj [(''date'', JStr ''2024-01-03''), (''close_price'', JInt 12), (''volume'', JInt 300)],
            JObj [(''date'', JStr ''2024-01-02''), (''close_price'', JInt 11), (''volume'', JInt 200)]]"

definition stats_down :: "exn + response" where
  "stats_down =
     Inr \<lparr>status_code = 500, json_result = Inr (JObj [(''detail'', JStr ''stats unavailable'')])\<rparr>"

fun price_backend :: "nat \<Rightarrow> network" where
  "price_backend 0 c = ok (JList [apple])"
| "price_backend (Suc 0) c = ok price_rows"
| "price_backend n c = stats_down"

definition price_frame :: "int dated" where
  "price_frame =
     \<lparr>dcolumns = [''date'', ''close_price'', ''volume''],
      drows =
        [(20240103, [(''date'', JStr ''2024-01-03''), (''close_price'', JInt 12),
                     (''volume'', JInt 300)]),
         (20240102, [(''date'', JStr ''2024-01-02''), (''close_price'', JInt 11),
                     (''volume'', JInt 200)])]\<rparr>"

text \<open>A script that makes no call: it only adds output that is not a call.\<close>

definition quiet :: "('d, 'a) script \<Rightarrow> bool" where
  "quiet m = (\<forall>w. calls_of (events (snd (m w))) = calls_of (events w))"



text \<open>Inputs of the Projections screen with the Calculate Moving Average button pressed.\<close>

definition pj_ma :: pj_inputs where
  "pj_ma =
     \<lparr>pj_selected = 0, pj_days_ahead = 30, pj_lookback = 90, pj_proj_btn = False,
      pj_window = 20, pj_ma_btn = True, pj_vol_lookback = 30, pj_vol_btn = False\<rparr>"

text \<open>A backend that answers every call with status 200 and the body \<^verbatim>\<open>null\<close>.\<close>

definition null_backend :: "nat \<Rightarrow> network" where
  "null_backend n c = ok JNull"

text \<open>A backend that answers 500 with the gateway's own connection message as its detail.\<close>

definition echo_500_network :: network where
  "echo_500_network c =
     Inr \<lparr>status_code = 500, json_result = Inr (JObj [(''detail'', JStr cannot_connect)])\<rparr>"




text \<open>A render of Price History on that backend, once the stocks have been fetched.\<close>

definition prices_ready :: "int world" where
  "prices_ready = \<lparr>backend = price_backend, ncalls = 1, events = []\<rparr>"

section \<open>The gateway's results\<close>

lemma fetch_api_try_request:
  "request_of endpoint method data = Some c \<Longrightarrow>
   fetch_api_try net endpoint method data =
     (case net c of Inl e \<Rightarrow> Inl e | Inr r \<Rightarrow> on_response r)"
  by (auto simp: request_of_def fetch_api_try_def Let_def split: if_splits)

lemma fetch_api_try_invalid:
  "request_of endpoint method data = None \<Longrightarrow>
   fetch_api_try net endpoint method data = Inr (error_value (JStr ''Invalid method''))"
  by (auto simp: request_of_def fetch_api_try_def Let_def split: if_splits)

lemma fetch_api_except_Inr: "\<exists>v. fetch_api_except e = Inr v"
  by (cases e) simp_all

lemma fetch_api_response:
  assumes "request_of endpoint method data = Some c" and "net c = Inr r"
  shows "fetch_api net endpoint method data =
           (case on_response r of Inl e \<Rightarrow> fetch_api_except e | Inr v \<Rightarrow> Inr v)"
  using assms by (simp add: fetch_api_def fetch_api_try_request)

text \<open>
  Claim C1, as the code has it. For a call with a valid method that the backend answers:
  status 200 or 201 returns the decoded JSON body; status 204 returns the fixed marker
  \<open>empty_success\<close>; any other status whose body decodes to a JSON object returns an
  error value carrying the object's \<^verbatim>\<open>detail\<close> field, or the generic message
  \<^verbatim>\<open>API Error\<close> when the object has no such field. When decoding the body raises
  (and the status is not 204), the result is an error value carrying the text of that
  exception, not the generic message.
\<close>

theorem fetch_api_status_policy:
  assumes "request_of endpoint method data = Some c" and "net c = Inr r"
  shows "((status_code r = 200 \<or> status_code r = 201) \<longrightarrow>
            (\<forall>body. json_result r = Inr body \<longrightarrow>
               fetch_api net endpoint method data = Inr body))
       \<and> (status_code r = 204 \<longrightarrow> fetch_api net endpoint method data = Inr empty_success)
       \<and> (status_code r \<noteq> 200 \<and> status_code r \<noteq> 201 \<and> status_code r \<noteq> 204 \<longrightarrow>
            (\<forall>kvs. json_result r = Inr (JObj kvs) \<longrightarrow>
               fetch_api net endpoint method data =
                 Inr (error_value (case map_of kvs ''detail'' of
                                     None \<Rightarrow> JStr ''API Error'' | Some d \<Rightarrow> d))))
       \<and> (status_code r \<noteq> 204 \<longrightarrow>
            (\<forall>m. json_result r = Inl (OtherError m) \<longrightarrow>
               fetch_api net endpoint method data = Inr (error_value (JStr m))))"
  using assms by (auto simp: fetch_api_response on_response_def)

theorem fetch_api_status_policy_witness:
  "request_of ''/stocks/7'' ''GET'' None = Some (HttpGet (API_BASE_URL @ ''/stocks/7'') None)
   \<and> detail_404_network (HttpGet (API_BASE_URL @ ''/stocks/7'') None) =
        Inr \<lparr>status_code = 404,
             json_result = Inr (JObj [(''detail'', JStr ''Stock not found'')])\<rparr>
   \<and> fetch_api detail_404_network ''/stocks/7'' ''GET'' None =
        Inr (error_value (JStr ''Stock not found''))"
proof -
  have a: "request_of ''/stocks/7'' ''GET'' None = Some (HttpGet (API_BASE_URL @ ''/stocks/7'') None)"
    by (simp add: request_of_def)
  have b: "detail_404_network (HttpGet (API_BASE_URL @ ''/stocks/7'') None) =
        Inr \<lparr>status_code = 404,
             json_result = Inr (JObj [(''detail'', JStr ''Stock not found'')])\<rparr>"
    by (simp add: detail_404_network_def)
  show ?thesis
    using fetch_api_status_policy
      [of "''/stocks/7''" "''GET''" None "HttpGet (API_BASE_URL @ ''/stocks/7'') None"
          detail_404_network
          "\<lparr>status_code = 404,
            json_result = Inr (JObj [(''detail'', JStr ''Stock not found'')])\<rparr>"] a b
    by simp
qed

text \<open>
  Claim C1 as stated fails: the backend answers 500 with a body that is not JSON, and the
  message of the error value is the decoder's text, not the generic message.
\<close>

theorem fetch_api_generic_message_counterexample:
  "fetch_api html_500_network ''/stocks/'' ''GET'' None =
     Inr (error_value (JStr ''Expecting value: line 1 column 1 (char 0)''))
   \<and> fetch_api html_500_network ''/stocks/'' ''GET'' None \<noteq>
     Inr (error_value (JStr ''API Error''))"
  by (simp add: fetch_api_def fetch_api_try_def on_response_def html_500_network_def
      error_value_def)

text \<open>
  Claim C2, as the code has it. No exception leaves \<open>fetch_api\<close>: it always returns a
  value. When the call raises a connection error, the value is the error value with the
  fixed message \<open>cannot_connect\<close>; when anything else is raised inside the \<^verbatim>\<open>try\<close>,
  it is the error value with the text of that exception. The fixed message is not the
  generic message of an application-level error, but an application-level error carries
  whatever detail the backend sent: for a response with another status than 200, 201 and
  204 and a JSON object as body, the result is the connection error value exactly when the
  object's detail is the fixed message itself.
\<close>

theorem fetch_api_never_raises:
  "(\<exists>v. fetch_api net endpoint method data = Inr v)
   \<and> (\<forall>m. fetch_api_try net endpoint method data = Inl (ConnectionError m) \<longrightarrow>
          fetch_api net endpoint method data = Inr (error_value (JStr cannot_connect)))
   \<and> (\<forall>c m. request_of endpoint method data = Some c \<longrightarrow> net c = Inl (ConnectionError m) \<longrightarrow>
          fetch_api net endpoint method data = Inr (error_value (JStr cannot_connect)))
   \<and> (\<forall>e. fetch_api_try net endpoint method data = Inl e \<longrightarrow>
          (\<forall>m. e \<noteq> ConnectionError m) \<longrightarrow>
          fetch_api net endpoint method data = Inr (error_value (JStr (exn_str e))))
   \<and> cannot_connect \<noteq> ''API Error''
   \<and> (\<forall>c r kvs. request_of endpoint method data = Some c \<longrightarrow> net c = Inr r \<longrightarrow>
          status_code r \<noteq> 200 \<and> status_code r \<noteq> 201 \<and> status_code r \<noteq> 204 \<longrightarrow>
          json_result r = Inr (JObj kvs) \<longrightarrow>
          (fetch_api net endpoint method data = Inr (error_value (JStr cannot_connect))) =
          (map_of kvs ''detail'' = Some (JStr cannot_connect)))"
proof -
  have 1: "\<exists>v. fetch_api net endpoint method data = Inr v"
    using fetch_api_except_Inr by (auto simp: fetch_api_def split: sum.splits)
  have 2: "fetch_api net endpoint method data = Inr (error_value (JStr cannot_connect))"
    if "fetch_api_try net endpoint method data = Inl (ConnectionError m)" for m
    using that by (simp add: fetch_api_def)
  have 3: "fetch_api net endpoint method data = Inr (error_value (JStr cannot_connect))"
    if "request_of endpoint method data = Some c" "net c = Inl (ConnectionError m)" for c m
    using that by (simp add: fetch_api_def fetch_api_try_request)
  have 4: "fetch_api net endpoint method data = Inr (error_value (JStr (exn_str e)))"
    if "fetch_api_try net endpoint method data = Inl e" "\<forall>m. e \<noteq> ConnectionError m" for e
    using that by (cases e) (simp_all add: fetch_api_def)
  have 5: "cannot_connect \<noteq> ''API Error''"
    by (simp add: cannot_connect_def)
  have 6: "(fetch_api net endpoint method data = Inr (error_value (JStr cannot_connect))) =
          (map_of kvs ''detail'' = Some (JStr cannot_connect))"
    if "request_of endpoint method data = Some c" "net c = Inr r"
      "status_code r \<noteq> 200 \<and> status_code r \<noteq> 201 \<and> status_code r \<noteq> 204"
      "json_result r = Inr (JObj kvs)" for c r kvs
    using that 5
    by (auto simp: fetch_api_response on_response_def error_value_def split: option.splits)
  from 1 2 3 4 5 6 show ?thesis by blast
qed

lemma echo_500_result:
  "fetch_api echo_500_network ''/stocks/'' ''GET'' None = Inr (error_value (JStr cannot_connect))"
  by (simp add: fetch_api_def fetch_api_try_def on_response_def echo_500_network_def)

lemma down_result:
  "fetch_api down_network ''/stocks/'' ''GET'' None = Inr (error_value (JStr cannot_connect))"
  by (simp add: fetch_api_def fetch_api_try_def down_network_def)

theorem fetch_api_never_raises_witness:
  "fetch_api_try down_network ''/stocks/'' ''GET'' None = Inl (ConnectionError ''Connection refused'')
   \<and> fetch_api down_network ''/stocks/'' ''GET'' None = Inr (error_value (JStr cannot_connect))
   \<and> fetch_api_try timeout_network ''/stocks/'' ''GET'' None = Inl (OtherError ''Read timed out.'')
   \<and> fetch_api timeout_network ''/stocks/'' ''GET'' None = Inr (error_value (JStr ''Read timed out.''))
   \<and> request_of ''/stocks/7'' ''GET'' None = Some (HttpGet (API_BASE_URL @ ''/stocks/7'') None)
   \<and> detail_404_network (HttpGet (API_BASE_URL @ ''/stocks/7'') None) =
        Inr \<lparr>status_code = 404,
             json_result = Inr (JObj [(''detail'', JStr ''Stock not found'')])\<rparr>
   \<and> fetch_api detail_404_network ''/stocks/7'' ''GET'' None \<noteq>
        Inr (error_value (JStr cannot_connect))"
proof -
  have a: "fetch_api_try down_network ''/stocks/'' ''GET'' None = Inl (ConnectionError ''Connection refused'')"
    by (simp add: fetch_api_try_def down_network_def)
  have b: "fetch_api_try timeout_network ''/stocks/'' ''GET'' None = Inl (OtherError ''Read timed out.'')"
    by (simp add: fetch_api_try_def timeout_network_def)
  have c: "request_of ''/stocks/7'' ''GET'' None = Some (HttpGet (API_BASE_URL @ ''/stocks/7'') None)"
    by (simp add: request_of_def)
  have d: "detail_404_network (HttpGet (API_BASE_URL @ ''/stocks/7'') None) =
        Inr \<lparr>status_code = 404,
             json_result = Inr (JObj [(''detail'', JStr ''Stock not found'')])\<rparr>"
    by (simp add: detail_404_network_def)
  have e: "map_of [(''detail'', JStr ''Stock not found'')] ''detail'' \<noteq> Some (JStr cannot_connect)"
    by (simp add: cannot_connect_def)
  have g: "status_code \<lparr>status_code = 404,
             json_result = Inr (JObj [(''detail'', JStr ''Stock not found'')])\<rparr> \<noteq> 200
      \<and> status_code \<lparr>status_code = 404,
             json_result = Inr (JObj [(''detail'', JStr ''Stock not found'')])\<rparr> \<noteq> 201
      \<and> status_code \<lparr>status_code = 404,
             json_result = Inr (JObj [(''detail'', JStr ''Stock not found'')])\<rparr> \<noteq> 204"
    by simp
  have h: "json_result \<lparr>status_code = 404,
             json_result = Inr (JObj [(''detail'', JStr ''Stock not found'')])\<rparr> =
           Inr (JObj [(''detail'', JStr ''Stock not found'')])"
    by simp
  have f: "fetch_api detail_404_network ''/stocks/7'' ''GET'' None \<noteq>
        Inr (error_value (JStr cannot_connect))"
    using fetch_api_never_raises [of detail_404_network "''/stocks/7''" "''GET''" None] c d e g h
    by blast
  show ?thesis
    using fetch_api_never_raises [of down_network "''/stocks/''" "''GET''" None]
      fetch_api_never_raises [of timeout_network "''/stocks/''" "''GET''" None] a b c d f
    by simp
qed

text \<open>
  Claim C2 as stated fails in its last part: a backend that answers 500 with the fixed
  message as its detail gives the very error value that an unreachable backend gives, so
  the connection message is not distinct from every application-level message.
\<close>

theorem connect_message_counterexample:
  "echo_500_network (HttpGet (API_BASE_URL @ ''/stocks/'') None) =
     Inr \<lparr>status_code = 500, json_result = Inr (JObj [(''detail'', JStr cannot_connect)])\<rparr>
   \<and> down_network (HttpGet (API_BASE_URL @ ''/stocks/'') None) =
       Inl (ConnectionError ''Connection refused'')
   \<and> fetch_api echo_500_network ''/stocks/'' ''GET'' None =
       Inr (error_value (JStr cannot_connect))
   \<and> fetch_api down_network ''/stocks/'' ''GET'' None =
       Inr (error_value (JStr cannot_connect))"
  by (simp add: echo_500_result down_result echo_500_network_def down_network_def)

section \<open>Running a script\<close>

lemma calls_of_append: "calls_of (xs @ ys) = calls_of xs @ calls_of ys"
  by (induction xs rule: calls_of.induct) auto

lemma bind_emit: "bind (emit ev) f w = f () (w\<lparr>events := events w @ [ev]\<rparr>)"
  by (simp add: bind_def emit_def)

lemma bind_ret: "bind (ret x) f = f x"
  by (simp add: bind_def ret_def fun_eq_iff)

lemma bind_ret_unit: "bind m (\<lambda>_. ret ()) = m"
  by (auto simp: bind_def ret_def fun_eq_iff split: prod.splits sum.splits)

lemma bind_ret_right: "bind m ret = m"
  by (auto simp: bind_def ret_def fun_eq_iff split: prod.splits sum.splits)

lemma bind_lift_Inr: "bind (lift (Inr x)) f w = f x w"
  by (simp add: bind_def lift_def)

lemma bind_lift_Inl: "bind (lift (Inl e)) f w = (Inl (Raised e), w)"
  by (simp add: bind_def lift_def)

lemma bind_lift:
  "bind (lift r) f w = (case r of Inl e \<Rightarrow> (Inl (Raised e), w) | Inr x \<Rightarrow> f x w)"
  by (simp add: bind_def lift_def split: sum.splits)

lemma bind_assoc: "bind (bind m f) g = bind m (\<lambda>x. bind (f x) g)"
  by (auto simp: bind_def fun_eq_iff split: prod.splits sum.splits)

lemma bind_if: "bind (if c then m else n) f = (if c then bind m f else bind n f)"
  by simp

lemma bind_st_rerun: "bind st_rerun f w = (Inl Rerun, w)"
  by (simp add: bind_def st_rerun_def)

lemma emit_apply: "emit ev w = (Inr (), w\<lparr>events := events w @ [ev]\<rparr>)"
  by (simp add: emit_def)

lemma ret_apply: "ret x w = (Inr x, w)"
  by (simp add: ret_def)

lemma lift_apply: "lift r w = (case r of Inl e \<Rightarrow> Inl (Raised e) | Inr x \<Rightarrow> Inr x, w)"
  by (simp add: lift_def)

lemma st_rerun_apply: "st_rerun w = (Inl Rerun, w)"
  by (simp add: st_rerun_def)

lemma bind_gateway:
  "request_of endpoint method data = Some c \<Longrightarrow>
   bind (gateway endpoint method data) k w =
     (case fetch_api (backend w (ncalls w)) endpoint method data of
        Inl e \<Rightarrow> (Inl (Raised e), w\<lparr>ncalls := Suc (ncalls w), events := events w @ [Call c]\<rparr>)
      | Inr v \<Rightarrow> k v (w\<lparr>ncalls := Suc (ncalls w), events := events w @ [Call c]\<rparr>))"
  by (simp add: bind_def gateway_def Let_def split: sum.splits)

lemma request_of_POST:
  "request_of endpoint ''POST'' data = Some (HttpPost (API_BASE_URL @ endpoint) data)"
  by (simp add: request_of_def)

lemma request_of_GET:
  "request_of endpoint ''GET'' data = Some (HttpGet (API_BASE_URL @ endpoint) data)"
  by (simp add: request_of_def)

lemma request_of_DELETE:
  "request_of endpoint ''DELETE'' data = Some (HttpDelete (API_BASE_URL @ endpoint))"
  by (simp add: request_of_def)

lemmas script_simps =
  bind_ret_unit bind_ret_right emit_apply ret_apply lift_apply st_rerun_apply bind_st_rerun
  bind_emit bind_ret bind_lift_Inr bind_lift_Inl bind_assoc bind_if bind_gateway
  request_of_POST request_of_GET request_of_DELETE block.simps

section \<open>The Stock Management screen: its requests\<close>

lemma added_events:
  "\<exists>es. events (snd (added lib r w)) = events w @ es \<and> calls_of es = []"
  by (auto simp: added_def show_error_def bind_def lift_def emit_def split: sum.splits)

lemma added_calls: "calls_of (events (snd (added lib r w))) = calls_of (events w)"
  using added_events [of lib r w] by (auto simp: calls_of_append)

lemma quick_add_calls:
  "calls_of (events (snd (quick_add lib inp w))) =
     calls_of (events w) @
       (if sm_fetch_add inp \<and> sm_symbol inp \<noteq> []
        then [HttpPost (API_BASE_URL @ ''/stocks/fetch/'' @ upper lib (sm_symbol inp)) None]
        else [])"
  by (simp add: quick_add_def script_simps added_calls calls_of_append split: sum.splits)

lemma quick_add_empty:
  "sm_fetch_add inp \<Longrightarrow> sm_symbol inp = [] \<Longrightarrow>
   quick_add lib inp w =
     (Inr (), w\<lparr>events := events w @
        [StMarkdown ''### Quick Add (Fetch from Yahoo Finance)'',
         StWidget ''Stock Symbol'', StWidget ''Fetch & Add Stock'',
         StWarning ''Please enter a stock symbol'']\<rparr>)"
  by (simp add: quick_add_def script_simps)

lemma manual_add_calls:
  "calls_of (events (snd (manual_add lib inp w))) =
     calls_of (events w) @
       (if sm_add_stock inp \<and> sm_m_symbol inp \<noteq> [] \<and> sm_m_name inp \<noteq> []
        then [HttpPost (API_BASE_URL @ ''/stocks/'') (Some (manual_add_data lib inp))] else [])"
  by (simp add: manual_add_def script_simps added_calls calls_of_append split: sum.splits)

subsection \<open>What uppercasing does\<close>

lemma of_char_upper_char:
  "(of_char (upper_char c) :: nat) =
     (if 97 \<le> (of_char c :: nat) \<and> (of_char c :: nat) \<le> 122
      then of_char c - 32 else of_char c)"
proof (cases "97 \<le> (of_char c :: nat) \<and> (of_char c :: nat) \<le> 122")
  case True
  then have "(of_char c :: nat) - 32 < 256"
    by linarith
  then have "((of_char c :: nat) - 32) mod 256 = of_char c - 32"
    by simp
  with True show ?thesis
    by (simp add: upper_char_def)
next
  case False
  then show ?thesis
    by (auto simp: upper_char_def)
qed

lemma upper_ascii:
  assumes "\<forall>c \<in> set s. (of_char c :: nat) < 128"
  shows "length (upper lib s) = length s"
    and "\<forall>j < length s. (of_char (upper lib s ! j) :: nat) =
           (if 97 \<le> (of_char (s ! j) :: nat) \<and> (of_char (s ! j) :: nat) \<le> 122
            then of_char (s ! j) - 32 else of_char (s ! j))"
  using assms by (simp_all add: upper_def is_ascii_def of_char_upper_char)

lemma upper_other:
  assumes "\<exists>c \<in> set s. 128 \<le> (of_char c :: nat)"
  shows "upper lib s = str_upper lib s"
proof -
  from assms have "\<not> is_ascii s"
    by (force simp: is_ascii_def not_less)
  then show ?thesis
    by (simp add: upper_def)
qed

lemma upper_changes:
  assumes "\<forall>c \<in> set s. (of_char c :: nat) < 128"
    and "\<exists>c \<in> set s. 97 \<le> (of_char c :: nat) \<and> (of_char c :: nat) \<le> 122"
  shows "upper lib s \<noteq> s"
proof
  assume eq: "upper lib s = s"
  from assms(2) obtain j where j: "j < length s"
    "97 \<le> (of_char (s ! j) :: nat)" "(of_char (s ! j) :: nat) \<le> 122"
    by (auto simp: in_set_conv_nth)
  from upper_ascii(2) [OF assms(1), of lib] j
  have "(of_char (upper lib s ! j) :: nat) = of_char (s ! j) - 32"
    by simp
  with eq j show False
    by simp
qed

lemma upper_aapl: "upper demo_lib ''aapl'' = ''AAPL''"
  by code_simp

lemma upper_acme: "upper demo_lib ''acme'' = ''ACME''"
  by code_simp

lemma upper_cafe:
  "upper demo_lib [CHR ''c'', CHR ''a'', CHR ''f'', char_of (233 :: nat)] =
     [CHR ''C'', CHR ''A'', CHR ''F'', char_of (201 :: nat)]"
  by code_simp

lemma ascii_aapl: "\<forall>c \<in> set ''aapl''. (of_char c :: nat) < 128"
  by simp

lemma ascii_acme: "\<forall>c \<in> set ''acme''. (of_char c :: nat) < 128"
  by simp

text \<open>
  Claim C8. In the quick-add sub-flow, once the button is pressed: a non-empty symbol is
  uppercased and put in the path of the one POST request that the sub-flow makes; with an
  empty symbol the sub-flow shows the warning and ends, the gateway not having been called
  (no call is recorded and the call counter is unchanged). Uppercased means: on ASCII
  text, the same length, every letter \<^verbatim>\<open>a\<close> to \<^verbatim>\<open>z\<close> (97 to 122) replaced by its capital
  (32 less) and every other character kept; on any other text, what Python's
  \<^verbatim>\<open>str.upper()\<close> gives.
\<close>

theorem quick_add_uppercases:
  "(sm_fetch_add inp \<and> sm_symbol inp \<noteq> [] \<longrightarrow>
      calls_of (events (snd (quick_add lib inp w))) =
        calls_of (events w) @
          [HttpPost (API_BASE_URL @ ''/stocks/fetch/'' @ upper lib (sm_symbol inp)) None])
   \<and> ((\<forall>c \<in> set (sm_symbol inp). (of_char c :: nat) < 128) \<longrightarrow>
      length (upper lib (sm_symbol inp)) = length (sm_symbol inp)
      \<and> (\<forall>j < length (sm_symbol inp).
           (of_char (upper lib (sm_symbol inp) ! j) :: nat) =
             (if 97 \<le> (of_char (sm_symbol inp ! j) :: nat)
                 \<and> (of_char (sm_symbol inp ! j) :: nat) \<le> 122
              then of_char (sm_symbol inp ! j) - 32 else of_char (sm_symbol inp ! j))))
   \<and> ((\<exists>c \<in> set (sm_symbol inp). 128 \<le> (of_char c :: nat)) \<longrightarrow>
      upper lib (sm_symbol inp) = str_upper lib (sm_symbol inp))
   \<and> (sm_fetch_add inp \<and> sm_symbol inp = [] \<longrightarrow>
      quick_add lib inp w =
        (Inr (), w\<lparr>events := events w @
           [StMarkdown ''### Quick Add (Fetch from Yahoo Finance)'',
            StWidget ''Stock Symbol'', StWidget ''Fetch & Add Stock'',
            StWarning ''Please enter a stock symbol'']\<rparr>))"
proof (intro conjI impI)
  assume "sm_fetch_add inp \<and> sm_symbol inp \<noteq> []"
  then show "calls_of (events (snd (quick_add lib inp w))) =
        calls_of (events w) @
          [HttpPost (API_BASE_URL @ ''/stocks/fetch/'' @ upper lib (sm_symbol inp)) None]"
    by (simp add: quick_add_calls)
next
  assume "\<forall>c \<in> set (sm_symbol inp). (of_char c :: nat) < 128"
  then show "length (upper lib (sm_symbol inp)) = length (sm_symbol inp)"
    by (rule upper_ascii(1))
next
  assume "\<forall>c \<in> set (sm_symbol inp). (of_char c :: nat) < 128"
  then show "\<forall>j < length (sm_symbol inp).
           (of_char (upper lib (sm_symbol inp) ! j) :: nat) =
             (if 97 \<le> (of_char (sm_symbol inp ! j) :: nat)
                 \<and> (of_char (sm_symbol inp ! j) :: nat) \<le> 122
              then of_char (sm_symbol inp ! j) - 32 else of_char (sm_symbol inp ! j))"
    by (rule upper_ascii(2))
next
  assume "\<exists>c \<in> set (sm_symbol inp). 128 \<le> (of_char c :: nat)"
  then show "upper lib (sm_symbol inp) = str_upper lib (sm_symbol inp)"
    by (rule upper_other)
next
  assume "sm_fetch_add inp \<and> sm_symbol inp = []"
  then show "quick_add lib inp w =
        (Inr (), w\<lparr>events := events w @
           [StMarkdown ''### Quick Add (Fetch from Yahoo Finance)'',
            StWidget ''Stock Symbol'', StWidget ''Fetch & Add Stock'',
            StWarning ''Please enter a stock symbol'']\<rparr>)"
    by (simp add: quick_add_empty)
qed

theorem quick_add_uppercases_witness:
  "sm_fetch_add quick_aapl \<and> sm_symbol quick_aapl = ''aapl''
   \<and> is_ascii (sm_symbol quick_aapl)
   \<and> calls_of (events (snd (quick_add demo_lib quick_aapl (fresh one_stock_backend)))) =
       [HttpPost ''http://localhost:8000/api/v1/stocks/fetch/AAPL'' None]
   \<and> sm_fetch_add quick_cafe \<and> sm_symbol quick_cafe = ''caf'' @ [char_of (233 :: nat)]
   \<and> (\<exists>c \<in> set (sm_symbol quick_cafe). 128 \<le> (of_char c :: nat))
   \<and> calls_of (events (snd (quick_add demo_lib quick_cafe (fresh one_stock_backend)))) =
       [HttpPost (''http://localhost:8000/api/v1/stocks/fetch/CAF'' @ [char_of (201 :: nat)]) None]
   \<and> sm_fetch_add quick_blank \<and> sm_symbol quick_blank = []
   \<and> calls_of (events (snd (quick_add demo_lib quick_blank (fresh one_stock_backend)))) = []
   \<and> ncalls (snd (quick_add demo_lib quick_blank (fresh one_stock_backend))) = 0"
proof -
  have "sm_fetch_add quick_aapl \<and> sm_symbol quick_aapl = ''aapl''
   \<and> is_ascii (sm_symbol quick_aapl)
   \<and> calls_of (events (snd (quick_add demo_lib quick_aapl (fresh one_stock_backend)))) =
       [HttpPost ''http://localhost:8000/api/v1/stocks/fetch/AAPL'' None]"
    using quick_add_uppercases [of quick_aapl demo_lib "fresh one_stock_backend"]
    by (simp add: quick_aapl_def sm_idle_def fresh_def upper_aapl is_ascii_def API_BASE_URL_def)
  moreover have "sm_fetch_add quick_cafe
   \<and> sm_symbol quick_cafe = ''caf'' @ [char_of (233 :: nat)]
   \<and> (\<exists>c \<in> set (sm_symbol quick_cafe). 128 \<le> (of_char c :: nat))
   \<and> calls_of (events (snd (quick_add demo_lib quick_cafe (fresh one_stock_backend)))) =
       [HttpPost (''http://localhost:8000/api/v1/stocks/fetch/CAF'' @ [char_of (201 :: nat)]) None]"
    using quick_add_uppercases [of quick_cafe demo_lib "fresh one_stock_backend"]
    by (simp add: quick_cafe_def sm_idle_def fresh_def upper_cafe API_BASE_URL_def)
  moreover have "sm_fetch_add quick_blank \<and> sm_symbol quick_blank = []
   \<and> calls_of (events (snd (quick_add demo_lib quick_blank (fresh one_stock_backend)))) = []
   \<and> ncalls (snd (quick_add demo_lib quick_blank (fresh one_stock_backend))) = 0"
    using quick_add_uppercases [of quick_blank demo_lib "fresh one_stock_backend"]
    by (simp add: quick_blank_def sm_idle_def fresh_def)
  ultimately show ?thesis
    by blast
qed

text \<open>
  Claim C7. In the manual-add sub-flow, once the form is submitted with a symbol and a
  name, the sub-flow makes one POST request, and in its body each of \<^verbatim>\<open>sector\<close>,
  \<^verbatim>\<open>industry\<close> and \<^verbatim>\<open>exchange\<close> is \<open>JNull\<close> (Python's \<^verbatim>\<open>None\<close>) when the user left
  the field empty, never the empty string, and the text as given otherwise.
\<close>

theorem manual_add_blank_is_None:
  "sm_add_stock inp \<and> sm_m_symbol inp \<noteq> [] \<and> sm_m_name inp \<noteq> [] \<longrightarrow>
     (\<exists>body.
        calls_of (events (snd (manual_add lib inp w))) =
          calls_of (events w) @ [HttpPost (API_BASE_URL @ ''/stocks/'') (Some body)]
        \<and> py_getitem body ''sector'' =
            Inr (if sm_m_sector inp = [] then JNull else JStr (sm_m_sector inp))
        \<and> py_getitem body ''industry'' =
            Inr (if sm_m_industry inp = [] then JNull else JStr (sm_m_industry inp))
        \<and> py_getitem body ''exchange'' =
            Inr (if sm_m_exchange inp = [] then JNull else JStr (sm_m_exchange inp))
        \<and> py_getitem body ''sector'' \<noteq> Inr (JStr [])
        \<and> py_getitem body ''industry'' \<noteq> Inr (JStr [])
        \<and> py_getitem body ''exchange'' \<noteq> Inr (JStr []))"
  using manual_add_calls [of lib inp w]
  by (auto simp: manual_add_data_def or_None_def)

theorem manual_add_blank_is_None_witness:
  "sm_add_stock manual_acme \<and> sm_m_symbol manual_acme \<noteq> [] \<and> sm_m_name manual_acme \<noteq> []
   \<and> (\<exists>body.
        calls_of (events (snd (manual_add demo_lib manual_acme (fresh (\<lambda>n. one_stock_network))))) =
          [HttpPost (API_BASE_URL @ ''/stocks/'') (Some body)]
        \<and> py_getitem body ''sector'' = Inr JNull
        \<and> py_getitem body ''industry'' = Inr JNull
        \<and> py_getitem body ''exchange'' = Inr (JStr ''NYSE''))"
  using manual_add_blank_is_None [of manual_acme demo_lib "fresh (\<lambda>n. one_stock_network)"]
  by (auto simp: manual_acme_def sm_idle_def fresh_def)

text \<open>
  Claim C10. In the manual-add sub-flow, once the form is submitted with a symbol and a
  name, the symbol in the body of the POST request is the user's input uppercased, while
  the name is sent as typed. Uppercased means: on ASCII text, the same length, every letter
  \<^verbatim>\<open>a\<close> to \<^verbatim>\<open>z\<close> (97 to 122) replaced by its capital (32 less) and every other character
  kept, so that the symbol sent is not the raw input as soon as that has a lowercase
  letter; on any other text, what Python's \<^verbatim>\<open>str.upper()\<close> gives.
\<close>

theorem manual_add_uppercases:
  "(sm_add_stock inp \<and> sm_m_symbol inp \<noteq> [] \<and> sm_m_name inp \<noteq> [] \<longrightarrow>
     (\<exists>body.
        calls_of (events (snd (manual_add lib inp w))) =
          calls_of (events w) @ [HttpPost (API_BASE_URL @ ''/stocks/'') (Some body)]
        \<and> py_getitem body ''symbol'' = Inr (JStr (upper lib (sm_m_symbol inp)))
        \<and> py_getitem body ''name'' = Inr (JStr (sm_m_name inp))))
   \<and> ((\<forall>c \<in> set (sm_m_symbol inp). (of_char c :: nat) < 128) \<longrightarrow>
      length (upper lib (sm_m_symbol inp)) = length (sm_m_symbol inp)
      \<and> (\<forall>j < length (sm_m_symbol inp).
           (of_char (upper lib (sm_m_symbol inp) ! j) :: nat) =
             (if 97 \<le> (of_char (sm_m_symbol inp ! j) :: nat)
                 \<and> (of_char (sm_m_symbol inp ! j) :: nat) \<le> 122
              then of_char (sm_m_symbol inp ! j) - 32 else of_char (sm_m_symbol inp ! j))))
   \<and> ((\<forall>c \<in> set (sm_m_symbol inp). (of_char c :: nat) < 128)
        \<and> (\<exists>c \<in> set (sm_m_symbol inp). 97 \<le> (of_char c :: nat) \<and> (of_char c :: nat) \<le> 122)
        \<longrightarrow> upper lib (sm_m_symbol inp) \<noteq> sm_m_symbol inp)
   \<and> ((\<exists>c \<in> set (sm_m_symbol inp). 128 \<le> (of_char c :: nat)) \<longrightarrow>
      upper lib (sm_m_symbol inp) = str_upper lib (sm_m_symbol inp))"
proof -
  have 1: "sm_add_stock inp \<and> sm_m_symbol inp \<noteq> [] \<and> sm_m_name inp \<noteq> [] \<longrightarrow>
     (\<exists>body.
        calls_of (events (snd (manual_add lib inp w))) =
          calls_of (events w) @ [HttpPost (API_BASE_URL @ ''/stocks/'') (Some body)]
        \<and> py_getitem body ''symbol'' = Inr (JStr (upper lib (sm_m_symbol inp)))
        \<and> py_getitem body ''name'' = Inr (JStr (sm_m_name inp)))"
    using manual_add_calls [of lib inp w]
    by (auto simp: manual_add_data_def)
  have 2: "length (upper lib (sm_m_symbol inp)) = length (sm_m_symbol inp)
      \<and> (\<forall>j < length (sm_m_symbol inp).
           (of_char (upper lib (sm_m_symbol inp) ! j) :: nat) =
             (if 97 \<le> (of_char (sm_m_symbol inp ! j) :: nat)
                 \<and> (of_char (sm_m_symbol inp ! j) :: nat) \<le> 122
              then of_char (sm_m_symbol inp ! j) - 32 else of_char (sm_m_symbol inp ! j)))"
    if "\<forall>c \<in> set (sm_m_symbol inp). (of_char c :: nat) < 128"
    using upper_ascii(1) [OF that, of lib] upper_ascii(2) [OF that, of lib] by (rule conjI)
  have 3: "upper lib (sm_m_symbol inp) \<noteq> sm_m_symbol inp"
    if "(\<forall>c \<in> set (sm_m_symbol inp). (of_char c :: nat) < 128)
        \<and> (\<exists>c \<in> set (sm_m_symbol inp). 97 \<le> (of_char c :: nat) \<and> (of_char c :: nat) \<le> 122)"
    using that upper_changes [of "sm_m_symbol inp" lib] by (elim conjE) (rule upper_changes)
  have 4: "upper lib (sm_m_symbol inp) = str_upper lib (sm_m_symbol inp)"
    if "\<exists>c \<in> set (sm_m_symbol inp). 128 \<le> (of_char c :: nat)"
    using that by (rule upper_other)
  show ?thesis
    using 1 2 3 4 by blast
qed

theorem manual_add_uppercases_witness:
  "sm_add_stock manual_acme \<and> sm_m_symbol manual_acme = ''acme'' \<and> sm_m_name manual_acme \<noteq> []
   \<and> is_ascii (sm_m_symbol manual_acme)
   \<and> (\<exists>c \<in> set (sm_m_symbol manual_acme). 97 \<le> (of_char c :: nat) \<and> (of_char c :: nat) \<le> 122)
   \<and> upper demo_lib (sm_m_symbol manual_acme) \<noteq> sm_m_symbol manual_acme
   \<and> (\<exists>body.
        calls_of (events (snd (manual_add demo_lib manual_acme (fresh one_stock_backend)))) =
          [HttpPost (API_BASE_URL @ ''/stocks/'') (Some body)]
        \<and> py_getitem body ''symbol'' = Inr (JStr ''ACME'')
        \<and> py_getitem body ''name'' = Inr (JStr ''Acme Corp''))
   \<and> sm_add_stock manual_cafe \<and> sm_m_symbol manual_cafe = ''caf'' @ [char_of (233 :: nat)]
   \<and> sm_m_name manual_cafe \<noteq> []
   \<and> (\<exists>c \<in> set (sm_m_symbol manual_cafe). 128 \<le> (of_char c :: nat))
   \<and> (\<exists>body.
        calls_of (events (snd (manual_add demo_lib manual_cafe (fresh one_stock_backend)))) =
          [HttpPost (API_BASE_URL @ ''/stocks/'') (Some body)]
        \<and> py_getitem body ''symbol'' = Inr (JStr (''CAF'' @ [char_of (201 :: nat)])))"
proof -
  have "sm_add_stock manual_acme \<and> sm_m_symbol manual_acme = ''acme'' \<and> sm_m_name manual_acme \<noteq> []
   \<and> is_ascii (sm_m_symbol manual_acme)
   \<and> (\<exists>c \<in> set (sm_m_symbol manual_acme). 97 \<le> (of_char c :: nat) \<and> (of_char c :: nat) \<le> 122)
   \<and> upper demo_lib (sm_m_symbol manual_acme) \<noteq> sm_m_symbol manual_acme
   \<and> (\<exists>body.
        calls_of (events (snd (manual_add demo_lib manual_acme (fresh one_stock_backend)))) =
          [HttpPost (API_BASE_URL @ ''/stocks/'') (Some body)]
        \<and> py_getitem body ''symbol'' = Inr (JStr ''ACME'')
        \<and> py_getitem body ''name'' = Inr (JStr ''Acme Corp''))"
    using manual_add_uppercases [of manual_acme demo_lib "fresh one_stock_backend"]
    by (auto simp: manual_acme_def sm_idle_def fresh_def upper_acme is_ascii_def)
  moreover have "sm_add_stock manual_cafe
   \<and> sm_m_symbol manual_cafe = ''caf'' @ [char_of (233 :: nat)]
   \<and> sm_m_name manual_cafe \<noteq> []
   \<and> (\<exists>c \<in> set (sm_m_symbol manual_cafe). 128 \<le> (of_char c :: nat))
   \<and> (\<exists>body.
        calls_of (events (snd (manual_add demo_lib manual_cafe (fresh one_stock_backend)))) =
          [HttpPost (API_BASE_URL @ ''/stocks/'') (Some body)]
        \<and> py_getitem body ''symbol'' = Inr (JStr (''CAF'' @ [char_of (201 :: nat)])))"
    using manual_add_uppercases [of manual_cafe demo_lib "fresh one_stock_backend"]
    by (auto simp: manual_cafe_def sm_idle_def fresh_def upper_cafe)
  ultimately show ?thesis
    by blast
qed

lemma fetch_prices_form_calls:
  assumes "sm_fetch_prices inp"
    and "lookup_selected opts (selectbox (map fst opts) (sm_selected inp)) = Inr symbol"
  shows "calls_of (events (snd (fetch_prices_form lib inp opts w))) =
           calls_of (events w) @
             [HttpPost (API_BASE_URL @ ''/prices/fetch'') (Some (fetch_prices_data inp symbol))]"
  using assms
  by (simp add: fetch_prices_form_def show_error_def script_simps bind_lift calls_of_append
        split: sum.splits)

lemma selectbox_PERIODS:
  "selectbox PERIODS i = Some (PERIODS ! (if i < length PERIODS then i else 0))"
  by (simp add: selectbox_def PERIODS_def)

lemma fetch_prices_data_eq:
  "selectbox PERIODS (sm_period inp) = Some p \<Longrightarrow>
   fetch_prices_data inp symbol =
     JObj ([(''symbol'', symbol), (''period'', JStr p)] @
           (if sm_use_dates inp
            then [(''start_date'', JStr (isoformat (sm_start_date inp))),
                  (''end_date'', JStr (isoformat (sm_end_date inp)))]
            else []))"
  by (simp add: fetch_prices_data_def dict_set_def)

text \<open>
  Claim C4, as the code has it. Once Fetch Prices is pressed for a selected stock, the
  sub-flow makes one POST request to \<^verbatim>\<open>/prices/fetch\<close>. Its body always carries the
  symbol and the period preset that the Period selectbox returned; when the custom date
  range is checked, \<^verbatim>\<open>start_date\<close> and \<^verbatim>\<open>end_date\<close> are added after them, in ISO format,
  and the period stays in the body.
\<close>

theorem fetch_prices_payload:
  "sm_fetch_prices inp \<and>
   lookup_selected opts (selectbox (map fst opts) (sm_selected inp)) = Inr symbol \<longrightarrow>
     (\<exists>p. selectbox PERIODS (sm_period inp) = Some p
        \<and> p = PERIODS ! (if sm_period inp < length PERIODS then sm_period inp else 0)
        \<and> calls_of (events (snd (fetch_prices_form lib inp opts w))) =
          calls_of (events w) @
            [HttpPost (API_BASE_URL @ ''/prices/fetch'')
               (Some (JObj ([(''symbol'', symbol), (''period'', JStr p)] @
                  (if sm_use_dates inp
                   then [(''start_date'', JStr (isoformat (sm_start_date inp))),
                         (''end_date'', JStr (isoformat (sm_end_date inp)))]
                   else []))))])"
proof (intro impI, elim conjE)
  assume a: "sm_fetch_prices inp"
    and b: "lookup_selected opts (selectbox (map fst opts) (sm_selected inp)) = Inr symbol"
  let ?p = "PERIODS ! (if sm_period inp < length PERIODS then sm_period inp else 0)"
  have p: "selectbox PERIODS (sm_period inp) = Some ?p"
    by (rule selectbox_PERIODS)
  have "calls_of (events (snd (fetch_prices_form lib inp opts w))) =
          calls_of (events w) @
            [HttpPost (API_BASE_URL @ ''/prices/fetch'')
               (Some (JObj ([(''symbol'', symbol), (''period'', JStr ?p)] @
                  (if sm_use_dates inp
                   then [(''start_date'', JStr (isoformat (sm_start_date inp))),
                         (''end_date'', JStr (isoformat (sm_end_date inp)))]
                   else []))))]"
    using fetch_prices_form_calls [OF a b, of lib w] fetch_prices_data_eq [OF p, of symbol]
    by simp
  with p show "\<exists>p. selectbox PERIODS (sm_period inp) = Some p
        \<and> p = PERIODS ! (if sm_period inp < length PERIODS then sm_period inp else 0)
        \<and> calls_of (events (snd (fetch_prices_form lib inp opts w))) =
          calls_of (events w) @
            [HttpPost (API_BASE_URL @ ''/prices/fetch'')
               (Some (JObj ([(''symbol'', symbol), (''period'', JStr p)] @
                  (if sm_use_dates inp
                   then [(''start_date'', JStr (isoformat (sm_start_date inp))),
                         (''end_date'', JStr (isoformat (sm_end_date inp)))]
                   else []))))]"
    by blast
qed

lemma custom_range_period:
  "PERIODS ! (if sm_period custom_range < length PERIODS then sm_period custom_range else 0) = ''1y''"
  by (simp add: custom_range_def PERIODS_def)

theorem fetch_prices_payload_witness:
  "sm_fetch_prices custom_range
   \<and> sm_period custom_range = 3
   \<and> lookup_selected [(''AAPL - Apple Inc.'', JStr ''AAPL'')]
        (selectbox (map fst [(''AAPL - Apple Inc.'', JStr ''AAPL'')]) (sm_selected custom_range)) =
       Inr (JStr ''AAPL'')
   \<and> calls_of (events (snd (fetch_prices_form demo_lib custom_range
            [(''AAPL - Apple Inc.'', JStr ''AAPL'')] (fresh one_stock_backend)))) =
          [HttpPost (API_BASE_URL @ ''/prices/fetch'')
             (Some (JObj [(''symbol'', JStr ''AAPL''), (''period'', JStr ''1y''),
                          (''start_date'', JStr (isoformat (sm_start_date custom_range))),
                          (''end_date'', JStr (isoformat (sm_end_date custom_range)))]))]"
  using fetch_prices_payload [of custom_range "[(''AAPL - Apple Inc.'', JStr ''AAPL'')]"
      "JStr ''AAPL''" demo_lib "fresh one_stock_backend"]
  by (simp add: custom_range_def sm_idle_def fresh_def lookup_selected_def selectbox_def
      PERIODS_def)

text \<open>
  Claim C4 as stated fails: with the custom date range checked and the period selectbox at
  \<^verbatim>\<open>1y\<close>, the body of the ingestion request carries the period \<^verbatim>\<open>1y\<close> together with the
  two dates.
\<close>

theorem fetch_prices_period_counterexample:
  "calls_of (events (snd (fetch_prices_tab demo_lib custom_range (fresh one_stock_backend)))) =
     [HttpGet ''http://localhost:8000/api/v1/stocks/'' None,
      HttpPost ''http://localhost:8000/api/v1/prices/fetch''
        (Some (JObj [(''symbol'', JStr ''AAPL''), (''period'', JStr ''1y''),
                     (''start_date'', JStr ''2024-01-01''),
                     (''end_date'', JStr ''2024-01-31'')]))]"
  by code_simp

section \<open>The chart data pipeline: order\<close>











lemma dated_price_rows: "dated_frame demo_lib price_rows = Inr price_frame"
  by code_simp



lemma truthy_price_rows: "truthy price_rows"
  by (simp add: price_rows_def)



section \<open>Scripts that make no call\<close>

lemma quiet_ret: "quiet (ret x)"
  by (simp add: quiet_def ret_def)

lemma quiet_lift: "quiet (lift r)"
  by (simp add: quiet_def lift_def)

lemma quiet_st_rerun: "quiet st_rerun"
  by (simp add: quiet_def st_rerun_def)

lemma quiet_emit: "calls_of [ev] = [] \<Longrightarrow> quiet (emit ev)"
  by (simp add: quiet_def emit_def calls_of_append)

lemma quiet_bind: "quiet m \<Longrightarrow> (\<And>x. quiet (f x)) \<Longrightarrow> quiet (bind m f)"
  unfolding quiet_def bind_def
proof (intro allI)
  fix w
  assume m: "\<forall>w. calls_of (events (snd (m w))) = calls_of (events w)"
    and f: "\<And>x. \<forall>w. calls_of (events (snd (f x w))) = calls_of (events w)"
  obtain r w' where mw: "m w = (r, w')" by (cases "m w")
  with m have w': "calls_of (events w') = calls_of (events w)" by (metis snd_conv)
  show "calls_of (events (snd (case m w of (Inl e, w') \<Rightarrow> (Inl e, w') | (Inr x, w') \<Rightarrow> f x w'))) =
          calls_of (events w)"
    using mw w' f by (cases r) simp_all
qed

lemma quiet_if: "quiet m \<Longrightarrow> quiet n \<Longrightarrow> quiet (if c then m else n)"
  by simp

lemma quiet_block: "(\<And>m. m \<in> set ms \<Longrightarrow> quiet m) \<Longrightarrow> quiet (block ms)"
  by (induction ms) (auto intro: quiet_ret quiet_bind)

lemma quiet_block_Nil: "quiet (block [])"
  by (simp add: quiet_ret)

lemma quiet_block_Cons: "quiet m \<Longrightarrow> quiet (block ms) \<Longrightarrow> quiet (block (m # ms))"
  by (simp add: quiet_bind)

lemmas quiet_intros =
  quiet_ret quiet_lift quiet_st_rerun quiet_emit quiet_bind quiet_if quiet_block_Nil
  quiet_block_Cons

lemma quiet_calls: "quiet m \<Longrightarrow> calls_of (events (snd (m w))) = calls_of (events w)"
  by (simp add: quiet_def)

lemma bind_quiet_calls:
  "(\<And>x. quiet (k x)) \<Longrightarrow>
   calls_of (events (snd (bind m k w))) = calls_of (events (snd (m w)))"
  by (auto simp: bind_def quiet_def split: prod.splits sum.splits)

lemma gateway_calls:
  "request_of endpoint method data = Some c \<Longrightarrow>
   calls_of (events (snd (gateway endpoint method data w))) = calls_of (events w) @ [c]"
  by (simp add: gateway_def Let_def calls_of_append)

lemma quiet_show_error: "quiet (show_error r)"
  by (auto simp: show_error_def intro!: quiet_intros)

section \<open>The Price History screen: its requests\<close>

lemma quiet_price_metric: "quiet (price_metric lib stats label key)"
  by (auto simp: price_metric_def intro!: quiet_intros)

lemma quiet_stats_metrics: "quiet (stats_metrics lib stats)"
  by (auto simp: stats_metrics_def intro!: quiet_intros quiet_price_metric)

lemma quiet_price_figure: "quiet (price_figure lib inp stock df)"
  by (auto simp: price_figure_def intro!: quiet_intros)

lemma stats_call:
  assumes "py_getitem stock ''id'' = Inr i"
  shows "calls_of (events (snd (bind (lift (py_getitem stock ''id'')) (\<lambda>i.
          bind (gateway (''/prices/'' @ py_str lib i @ ''/stats'') ''GET'' None) (\<lambda>stats.
            bind (lift (py_in ''error'' stats)) (\<lambda>err.
              if \<not> err then stats_metrics lib stats else ret ()))) w))) =
         calls_of (events w) @
           [HttpGet (API_BASE_URL @ ''/prices/'' @ py_str lib i @ ''/stats'') None]"
proof -
  let ?K = "\<lambda>stats. bind (lift (py_in ''error'' stats)) (\<lambda>err.
              if \<not> err then stats_metrics lib stats else ret ())"
  let ?E = "''/prices/'' @ py_str lib i @ ''/stats''"
  have q: "quiet (?K stats)" for stats
    by (auto intro!: quiet_intros quiet_stats_metrics)
  have "calls_of (events (snd (bind (gateway ?E ''GET'' None) ?K w))) =
          calls_of (events (snd (gateway ?E ''GET'' None w)))"
    by (rule bind_quiet_calls) (rule q)
  then show ?thesis
    using assms by (simp add: bind_lift gateway_calls request_of_GET)
qed

lemma price_charts_calls:
  assumes "py_getitem stock ''id'' = Inr i"
  shows "calls_of (events (snd (price_charts lib inp stock df w))) =
           calls_of (events w) @
             [HttpGet (API_BASE_URL @ ''/prices/'' @ py_str lib i @ ''/stats'') None]"
proof -
  have q: "quiet (block
       [emit (StSubheader ''Price Chart''),
        emit (StWidget ''Chart Type''),
        price_figure lib inp stock df,
        emit (StSubheader ''Trading Volume''),
        bind (lift (px_column df ''volume'')) (\<lambda>vol.
          emit (StPlotlyChart [PxBar (dates df) vol] [])),
        emit (StExpander ''View Raw Data''),
        emit (StDatedFrame (dcolumns df) (drows df))])"
    by (auto intro!: quiet_intros quiet_price_figure)
  show ?thesis
    unfolding price_charts_def block.simps(2) [of "emit (StSubheader ''Statistics'')"]
    apply (simp only: bind_emit)
    apply (subst block.simps(2))
    apply (subst bind_quiet_calls)
     apply (rule q)
    apply (subst stats_call [OF assms])
    apply (simp add: calls_of_append)
    done
qed
lemma price_history_of_calls:
  assumes "lookup_selected opts (selectbox (map fst opts) (ph_selected inp)) = Inr stock"
    and "py_getitem stock ''id'' = Inr i"
  shows "\<exists>rest. calls_of (events (snd (price_history_of lib inp opts w))) =
           calls_of (events w) @
             HttpGet (API_BASE_URL @ ''/prices/'' @ py_str lib i) (Some (price_params inp)) # rest
         \<and> (rest = [] \<or>
            rest = [HttpGet (API_BASE_URL @ ''/prices/'' @ py_str lib i @ ''/stats'') None])"
  using assms
  by (auto simp add: price_history_of_def script_simps bind_lift calls_of_append
        quiet_calls [OF quiet_show_error] price_charts_calls [OF assms(2)]
        split: sum.splits)

lemma price_history_of_success:
  assumes "lookup_selected opts (selectbox (map fst opts) (ph_selected inp)) = Inr stock"
    and "py_getitem stock ''id'' = Inr i"
    and "fetch_api (backend w (ncalls w)) (''/prices/'' @ py_str lib i) ''GET''
           (Some (price_params inp)) = Inr r"
    and "py_in ''error'' r = Inr False" and "truthy r" and "sorted_frame lib r = Inr df"
  shows "calls_of (events (snd (price_history_of lib inp opts w))) =
           calls_of (events w) @
             [HttpGet (API_BASE_URL @ ''/prices/'' @ py_str lib i) (Some (price_params inp)),
              HttpGet (API_BASE_URL @ ''/prices/'' @ py_str lib i @ ''/stats'') None]"
  using assms
  by (simp add: price_history_of_def script_simps bind_lift calls_of_append
        price_charts_calls [OF assms(2)])

text \<open>
  Claim C6. On the Price History screen the part that follows the sorted price frame
  makes one request, the statistics request of the selected stock, with no parameters
  at all, whatever date range and record cap the user chose; those go with the price
  request only. So the screen's requests for a selected stock are the price request with
  the date range and the cap, followed, when prices came back and their dates parsed, by
  the statistics request without parameters.
\<close>

theorem stats_request_unfiltered:
  "(py_getitem stock ''id'' = Inr i \<longrightarrow>
      calls_of (events (snd (price_charts lib inp stock df w))) =
        calls_of (events w) @
          [HttpGet (API_BASE_URL @ ''/prices/'' @ py_str lib i @ ''/stats'') None])
   \<and> (lookup_selected opts (selectbox (map fst opts) (ph_selected inp)) = Inr stock
        \<and> py_getitem stock ''id'' = Inr i \<longrightarrow>
      (\<exists>rest. calls_of (events (snd (price_history_of lib inp opts w))) =
           calls_of (events w) @
             HttpGet (API_BASE_URL @ ''/prices/'' @ py_str lib i) (Some (price_params inp)) # rest
         \<and> (rest = [] \<or>
            rest = [HttpGet (API_BASE_URL @ ''/prices/'' @ py_str lib i @ ''/stats'') None])))
   \<and> (lookup_selected opts (selectbox (map fst opts) (ph_selected inp)) = Inr stock
        \<and> py_getitem stock ''id'' = Inr i
        \<and> fetch_api (backend w (ncalls w)) (''/prices/'' @ py_str lib i) ''GET''
             (Some (price_params inp)) = Inr r
        \<and> py_in ''error'' r = Inr False \<and> truthy r \<and> sorted_frame lib r = Inr df \<longrightarrow>
      calls_of (events (snd (price_history_of lib inp opts w))) =
        calls_of (events w) @
          [HttpGet (API_BASE_URL @ ''/prices/'' @ py_str lib i) (Some (price_params inp)),
           HttpGet (API_BASE_URL @ ''/prices/'' @ py_str lib i @ ''/stats'') None])"
  using price_charts_calls [of stock i lib inp df w]
    price_history_of_calls [of opts inp stock i lib w]
    price_history_of_success [of opts inp stock i w lib r df]
  by blast

lemma apple_id: "py_getitem apple ''id'' = Inr (JInt 7)"
  by (simp add: apple_def)

lemma apple_selected:
  "lookup_selected [(''AAPL - Apple Inc.'', apple)]
     (selectbox (map fst [(''AAPL - Apple Inc.'', apple)]) (ph_selected ph_idle)) = Inr apple"
  by (simp add: lookup_selected_def selectbox_def)

lemma str_7: "py_str demo_lib (JInt 7) = ''7''"
  by code_simp

lemma prices_ready_fetch:
  "fetch_api (backend prices_ready (ncalls prices_ready)) (''/prices/'' @ py_str demo_lib (JInt 7))
     ''GET'' (Some (price_params ph_idle)) = Inr price_rows"
  by (simp add: prices_ready_def fetch_api_def fetch_api_try_def on_response_def ok_def)

lemma price_rows_no_error: "py_in ''error'' price_rows = Inr False"
  by (simp add: price_rows_def)

lemma sorted_price_rows:
  "sorted_frame demo_lib price_rows = Inr (sort_values demo_lib price_frame)"
  by (simp add: sorted_frame_def dated_price_rows)

theorem stats_request_unfiltered_witness:
  "py_getitem apple ''id'' = Inr (JInt 7)
   \<and> lookup_selected [(''AAPL - Apple Inc.'', apple)]
        (selectbox (map fst [(''AAPL - Apple Inc.'', apple)]) (ph_selected ph_idle)) = Inr apple
   \<and> fetch_api (backend prices_ready (ncalls prices_ready)) (''/prices/'' @ py_str demo_lib (JInt 7))
        ''GET'' (Some (price_params ph_idle)) = Inr price_rows
   \<and> py_in ''error'' price_rows = Inr False \<and> truthy price_rows
   \<and> sorted_frame demo_lib price_rows = Inr (sort_values demo_lib price_frame)
   \<and> calls_of (events (snd (price_charts demo_lib ph_idle apple
         (sort_values demo_lib price_frame) prices_ready))) =
       [HttpGet (API_BASE_URL @ ''/prices/7/stats'') None]
   \<and> calls_of (events (snd (price_history_of demo_lib ph_idle
         [(''AAPL - Apple Inc.'', apple)] prices_ready))) =
       [HttpGet (API_BASE_URL @ ''/prices/7'') (Some (price_params ph_idle)),
        HttpGet (API_BASE_URL @ ''/prices/7/stats'') None]"
proof -
  have e: "events prices_ready = []"
    by (simp add: prices_ready_def)
  note t = stats_request_unfiltered [of apple "JInt 7" demo_lib ph_idle
      "sort_values demo_lib price_frame" prices_ready "[(''AAPL - Apple Inc.'', apple)]"
      price_rows]
  from t apple_id have 1:
    "calls_of (events (snd (price_charts demo_lib ph_idle apple
         (sort_values demo_lib price_frame) prices_ready))) =
       calls_of (events prices_ready) @
         [HttpGet (API_BASE_URL @ ''/prices/'' @ py_str demo_lib (JInt 7) @ ''/stats'') None]"
    by (rule conjunct1 [THEN mp])
  from t [THEN conjunct2, THEN conjunct2] apple_selected apple_id prices_ready_fetch
    price_rows_no_error truthy_price_rows sorted_price_rows
  have 2: "calls_of (events (snd (price_history_of demo_lib ph_idle
         [(''AAPL - Apple Inc.'', apple)] prices_ready))) =
       calls_of (events prices_ready) @
         [HttpGet (API_BASE_URL @ ''/prices/'' @ py_str demo_lib (JInt 7))
            (Some (price_params ph_idle)),
          HttpGet (API_BASE_URL @ ''/prices/'' @ py_str demo_lib (JInt 7) @ ''/stats'') None]"
    by (elim impE) (intro conjI)
  show ?thesis
    using 1 2 apple_id apple_selected prices_ready_fetch price_rows_no_error truthy_price_rows
      sorted_price_rows
    by (simp add: e str_7)
qed

section \<open>Error results\<close>












section \<open>The Moving Average tab\<close>

lemma ma_result_warns:
  "py_in ''error'' r = Inr False \<Longrightarrow> \<not> (isinstance_list r \<and> truthy r) \<Longrightarrow>
   ma_result lib inp stock r w =
     (Inr (), w\<lparr>events := events w @
        [StWarning ''No data available for moving average calculation'']\<rparr>)"
  by (auto simp add: ma_result_def script_simps)

lemma ma_result_empty_list:
  "ma_result lib inp stock (JList []) w =
     (Inr (), w\<lparr>events := events w @
        [StWarning ''No data available for moving average calculation'']\<rparr>)"
  by (simp add: ma_result_warns)

lemma ma_result_dict:
  "''error'' \<notin> set (map fst kvs) \<Longrightarrow>
   ma_result lib inp stock (JObj kvs) w =
     (Inr (), w\<lparr>events := events w @
        [StWarning ''No data available for moving average calculation'']\<rparr>)"
  by (simp add: ma_result_warns isinstance_list_def)

text \<open>
  Claim C9 at the input where the code departs from it. The backend answers the
  moving-average request with status 200 and the body \<^verbatim>\<open>null\<close>: a result that is no
  error and no list. The test \<^verbatim>\<open>"error" in ma_data\<close> raises \<^verbatim>\<open>TypeError\<close>, so the tab
  ends with an exception after the request and shows no warning. An empty list, which
  supports the test, gets the warning.
\<close>

theorem moving_average_null_raises:
  "ma_result lib inp stock JNull w =
     (Inl (Raised (TypeError (''argument of type '' @ quoted ''NoneType'' @ '' is not iterable''))), w)
   \<and> ma_result lib inp stock (JList []) w =
       (Inr (), w\<lparr>events := events w @
          [StWarning ''No data available for moving average calculation'']\<rparr>)
   \<and> fetch_api (null_backend 0) ''/prices/7/moving-average'' ''GET''
        (Some (JObj [(''window'', JInt 20)])) = Inr JNull
   \<and> fst (moving_average_tab demo_lib pj_ma apple (fresh null_backend)) =
       Inl (Raised (TypeError (''argument of type '' @ quoted ''NoneType'' @ '' is not iterable'')))
   \<and> events (snd (moving_average_tab demo_lib pj_ma apple (fresh null_backend))) =
       [StSubheader ''Moving Average Analysis'',
        StWidget ''Moving Average Window (days)'',
        StWidget ''Calculate Moving Average'',
        Call (HttpGet ''http://localhost:8000/api/v1/prices/7/moving-average''
                (Some (JObj [(''window'', JInt 20)])))]"
proof -
  have 1: "ma_result lib inp stock JNull w =
     (Inl (Raised (TypeError (''argument of type '' @ quoted ''NoneType'' @ '' is not iterable''))), w)"
    by (simp add: ma_result_def script_simps bind_lift)
  have 2: "fetch_api (null_backend 0) ''/prices/7/moving-average'' ''GET''
        (Some (JObj [(''window'', JInt 20)])) = Inr JNull"
    by code_simp
  have 3: "fst (moving_average_tab demo_lib pj_ma apple (fresh null_backend)) =
       Inl (Raised (TypeError (''argument of type '' @ quoted ''NoneType'' @ '' is not iterable'')))"
    by code_simp
  have 4: "events (snd (moving_average_tab demo_lib pj_ma apple (fresh null_backend))) =
       [StSubheader ''Moving Average Analysis'',
        StWidget ''Moving Average Window (days)'',
        StWidget ''Calculate Moving Average'',
        Call (HttpGet ''http://localhost:8000/api/v1/prices/7/moving-average''
                (Some (JObj [(''window'', JInt 20)])))]"
    by code_simp
  from 1 2 3 4 show ?thesis by (simp add: ma_result_empty_list)
qed

end
